theory Spec2Isabelle
  imports Main
begin

section \<open>The deploy form of \<^verbatim>\<open>src/main.js\<close>\<close>

text \<open>
  \<^verbatim>\<open>src/main.js\<close> binds one asynchronous listener to the \<^verbatim>\<open>submit\<close> event of the deploy
  form. The listener reads two text inputs, writes to the submit button, the loading
  indicator and the result panel, calls \<^verbatim>\<open>fetch\<close> once and logs to the console.

  The embedding follows the listener statement by statement. The page elements it touches
  are the fields of a record; the network and the script engine are parameters; a thrown
  value and a promise that never settles are results of their own, so that \<^verbatim>\<open>try\<close>,
  \<^verbatim>\<open>catch\<close> and \<^verbatim>\<open>finally\<close> are ordinary functions over those results.
\<close>

subsection \<open>Values\<close>

text \<open>
  A thrown value. Everything the listener can catch is an \<^verbatim>\<open>Error\<close> object (the rejection of
  \<^verbatim>\<open>fetch\<close>, \<^verbatim>\<open>response.json()\<close> or \<^verbatim>\<open>response.text()\<close>, a \<^verbatim>\<open>TypeError\<close> of the engine, or the
  \<^verbatim>\<open>new Error(...)\<close> of line 43); the listener reads its \<^verbatim>\<open>message\<close> only.
\<close>

datatype js_error = JsError (error_name: string) (message: string)

text \<open>
  The value of \<^verbatim>\<open>await response.json()\<close>: what \<^verbatim>\<open>JSON.parse\<close> can return. A number is kept
  as its decimal rendering (\<^verbatim>\<open>Number::toString\<close>), the only thing the listener observes of
  it. An object is the list of its members in source order; \<^verbatim>\<open>JSON.parse\<close> lets a later
  duplicate key overwrite an earlier one.
\<close>

datatype json =
    JNull
  | JBool bool
  | JNumber string
  | JString string
  | JArray "json list"
  | JObject "(string \<times> json) list"

text \<open>A promise, seen at the \<^verbatim>\<open>await\<close>: it never settles, it rejects, or it fulfils.\<close>

datatype 'a promise = Pending | Rejected js_error | Fulfilled 'a

text \<open>
  The \<^verbatim>\<open>Response\<close> of \<^verbatim>\<open>fetch\<close>: its status code and what its two body readers settle to.
\<close>

record response =
  status :: nat
  json_body :: "json promise"
  text_body :: "string promise"

text \<open>\<^verbatim>\<open>response.ok\<close> is true exactly for the statuses 200 to 299.\<close>

definition ok :: "response \<Rightarrow> bool" where
  "ok response = (200 \<le> status response \<and> status response \<le> 299)"

text \<open>The arguments of one \<^verbatim>\<open>fetch\<close> call.\<close>

record request =
  resource :: string
  http_method :: string
  headers :: "(string \<times> string) list"
  body :: string

text \<open>
  The messages of the two \<^verbatim>\<open>TypeError\<close>s the engine itself can raise while the success
  template is evaluated. Their wording is not fixed by the language, so it is a parameter.
\<close>

record engine =
  null_read_message :: "string \<Rightarrow> string"
  to_primitive_message :: string

subsection \<open>The page\<close>

text \<open>
  The six elements of lines 1 to 6, by the properties the listener reads or writes, and
  the three effects that leave the page: \<^verbatim>\<open>e.preventDefault()\<close>, the calls of \<^verbatim>\<open>fetch\<close>
  and the calls of \<^verbatim>\<open>console.error\<close>, both in call order.
\<close>

record page =
  repoUrlInput_value :: string
  basePathInput_value :: string
  button_disabled :: bool
  button_textContent :: string
  loading_display :: string
  result_display :: string
  result_innerHTML :: string
  result_className :: string
  default_prevented :: bool
  fetch_calls :: "request list"
  console_errors :: "js_error list"

text \<open>
  How a piece of the listener ends: normally with a value, by a throw, or suspended for
  ever at an \<^verbatim>\<open>await\<close> whose promise never settles. Each carries the page as it is then.
\<close>

datatype 'a completion =
    Normal 'a page
  | Throw js_error page
  | Suspended page

fun page_of :: "'a completion \<Rightarrow> page" where
  "page_of (Normal v s) = s"
| "page_of (Throw e s) = s"
| "page_of (Suspended s) = s"

fun is_Normal :: "'a completion \<Rightarrow> bool" where
  "is_Normal (Normal v s) = True"
| "is_Normal (Throw e s) = False"
| "is_Normal (Suspended s) = False"

fun await :: "'a promise \<Rightarrow> page \<Rightarrow> 'a completion" where
  "await Pending s = Suspended s"
| "await (Rejected e) s = Throw e s"
| "await (Fulfilled v) s = Normal v s"

fun and_then :: "'a completion \<Rightarrow> ('a \<Rightarrow> page \<Rightarrow> 'b completion) \<Rightarrow> 'b completion" where
  "and_then (Normal v s) f = f v s"
| "and_then (Throw e s) f = Throw e s"
| "and_then (Suspended s) f = Suspended s"

text \<open>
  \<^verbatim>\<open>try { b } catch (err) { c } finally { f }\<close>. The \<^verbatim>\<open>finally\<close> block runs after a normal
  end of \<^verbatim>\<open>b\<close>, after \<^verbatim>\<open>c\<close>, and after a throw of \<^verbatim>\<open>c\<close>, which it lets through unless it
  throws itself. Nothing runs after a suspension.
\<close>

definition try_catch_finally ::
  "(page \<Rightarrow> unit completion) \<Rightarrow> (js_error \<Rightarrow> page \<Rightarrow> unit completion) \<Rightarrow>
   (page \<Rightarrow> unit completion) \<Rightarrow> page \<Rightarrow> unit completion" where
  "try_catch_finally b c f s =
     (case b s of
        Normal u s1 \<Rightarrow> f s1
      | Suspended s1 \<Rightarrow> Suspended s1
      | Throw err s1 \<Rightarrow>
          (case c err s1 of
             Normal u s2 \<Rightarrow> f s2
           | Suspended s2 \<Rightarrow> Suspended s2
           | Throw err2 s2 \<Rightarrow>
               (case f s2 of
                  Normal u s3 \<Rightarrow> Throw err2 s3
                | Throw err3 s3 \<Rightarrow> Throw err3 s3
                | Suspended s3 \<Rightarrow> Suspended s3)))"

subsection \<open>\<^verbatim>\<open>JSON.stringify\<close> of the request body\<close>

definition hex_digit :: "nat \<Rightarrow> char" where
  "hex_digit n = ''0123456789abcdef'' ! (n mod 16)"

text \<open>
  \<^verbatim>\<open>QuoteJSONString\<close>, one code unit at a time: the seven named escapes, \<^verbatim>\<open>\u00xx\<close> for the
  other control characters, and the character itself otherwise. \<^verbatim>\<open>CHR 0x5C\<close> is the
  backslash and \<^verbatim>\<open>CHR 0x22\<close> the double quote.
\<close>

definition QuoteJSONChar :: "char \<Rightarrow> string" where
  "QuoteJSONChar c =
     (if c = CHR 0x08 then [CHR 0x5C, CHR ''b'']
      else if c = CHR 0x09 then [CHR 0x5C, CHR ''t'']
      else if c = CHR 0x0A then [CHR 0x5C, CHR ''n'']
      else if c = CHR 0x0C then [CHR 0x5C, CHR ''f'']
      else if c = CHR 0x0D then [CHR 0x5C, CHR ''r'']
      else if c = CHR 0x22 then [CHR 0x5C, CHR 0x22]
      else if c = CHR 0x5C then [CHR 0x5C, CHR 0x5C]
      else if (of_char c :: nat) < 32
        then [CHR 0x5C, CHR ''u'', CHR ''0'', CHR ''0'',
              hex_digit (of_char c div 16), hex_digit (of_char c)]
      else [c])"

definition QuoteJSONString :: "string \<Rightarrow> string" where
  "QuoteJSONString s = [CHR 0x22] @ concat (map QuoteJSONChar s) @ [CHR 0x22]"

text \<open>\<^verbatim>\<open>JSON.stringify({ url, base_path })\<close>: both members are strings, in this order.\<close>

definition JSON_stringify :: "string \<Rightarrow> string \<Rightarrow> string" where
  "JSON_stringify url base_path =
     ''{'' @ QuoteJSONString ''url'' @ '':'' @ QuoteJSONString url @ '','' @
     QuoteJSONString ''base_path'' @ '':'' @ QuoteJSONString base_path @ ''}''"

subsection \<open>Template literals\<close>

text \<open>The decimal digits of a status code, as \<^verbatim>\<open>${response.status}\<close> renders it.\<close>

fun Number_toString :: "nat \<Rightarrow> string" where
  "Number_toString n =
     (if n < 10 then [''0123456789'' ! n]
      else Number_toString (n div 10) @ [''0123456789'' ! (n mod 10)])"

declare Number_toString.simps [simp del]

text \<open>The number a string of decimal digits denotes, to state what \<open>Number_toString\<close> writes.\<close>

definition read_decimal :: "string \<Rightarrow> nat" where
  "read_decimal ds = foldl (\<lambda>a c. 10 * a + (of_char c - 48)) 0 ds"

text \<open>
  \<^verbatim>\<open>data.slug\<close> and \<^verbatim>\<open>data.url\<close>. Reading a property of \<^verbatim>\<open>null\<close> throws a \<^verbatim>\<open>TypeError\<close>. An
  object gives its own member of that name, the last one when the key is repeated. In
  every other case the lookup goes to a built-in prototype, none of which has a property
  called \<^verbatim>\<open>slug\<close> or \<^verbatim>\<open>url\<close>, and the result is \<^verbatim>\<open>undefined\<close>, here \<open>None\<close>.
\<close>

fun get_property :: "engine \<Rightarrow> json \<Rightarrow> string \<Rightarrow> js_error + json option" where
  "get_property eng JNull k = Inl (JsError ''TypeError'' (null_read_message eng k))"
| "get_property eng (JObject kvs) k = Inr (map_of (rev kvs) k)"
| "get_property eng v k = Inr None"

text \<open>\<^verbatim>\<open>Array.prototype.join\<close> with the separator \<^verbatim>\<open>","\<close>, on elements already rendered.\<close>

fun join_comma :: "string list \<Rightarrow> string" where
  "join_comma [] = []"
| "join_comma [x] = x"
| "join_comma (x # y # ys) = x @ '','' @ join_comma (y # ys)"

text \<open>All results when none is a throw, the first throw otherwise.\<close>

fun sequence :: "(js_error + 'a) list \<Rightarrow> js_error + 'a list" where
  "sequence [] = Inr []"
| "sequence (Inl e # rs) = Inl e"
| "sequence (Inr x # rs) = (case sequence rs of Inl e \<Rightarrow> Inl e | Inr xs \<Rightarrow> Inr (x # xs))"

text \<open>
  \<^verbatim>\<open>ToString\<close> of a parsed value, as a template literal applies it. An array is joined
  with commas, a \<^verbatim>\<open>null\<close> element rendering as the empty string. A plain object renders as
  \<^verbatim>\<open>[object Object]\<close> through \<^verbatim>\<open>Object.prototype.toString\<close>, unless it has a member of its
  own called \<^verbatim>\<open>toString\<close>: that member is parsed data, so it is not callable, \<^verbatim>\<open>valueOf\<close>
  gives no primitive either, and the conversion throws a \<^verbatim>\<open>TypeError\<close>.
\<close>

fun ToString :: "engine \<Rightarrow> json \<Rightarrow> js_error + string" where
  "ToString eng JNull = Inr ''null''"
| "ToString eng (JBool b) = Inr (if b then ''true'' else ''false'')"
| "ToString eng (JNumber n) = Inr n"
| "ToString eng (JString s) = Inr s"
| "ToString eng (JArray vs) =
     (case sequence (map (\<lambda>v. if v = JNull then Inr [] else ToString eng v) vs) of
        Inl e \<Rightarrow> Inl e
      | Inr strs \<Rightarrow> Inr (join_comma strs))"
| "ToString eng (JObject kvs) =
     (if ''toString'' \<in> fst ` set kvs
      then Inl (JsError ''TypeError'' (to_primitive_message eng))
      else Inr ''[object Object]'')"

text \<open>A substitution \<^verbatim>\<open>${data.k}\<close>: the property read, then \<^verbatim>\<open>ToString\<close>.\<close>

definition substitution :: "engine \<Rightarrow> json \<Rightarrow> string \<Rightarrow> js_error + string" where
  "substitution eng data k =
     (case get_property eng data k of
        Inl e \<Rightarrow> Inl e
      | Inr None \<Rightarrow> Inr ''undefined''
      | Inr (Some v) \<Rightarrow> ToString eng v)"

definition indent :: "nat \<Rightarrow> string" where
  "indent n = replicate n (CHR '' '')"

definition newline :: string where
  "newline = [CHR 0x0A]"

text \<open>The template of lines 34 to 40 around its two substitutions, spaces and line ends included.\<close>

definition success_html :: "string \<Rightarrow> string \<Rightarrow> string" where
  \<open>success_html slug url =
     newline @ indent 24 @ ''<strong>Success!</strong>'' @
     newline @ indent 24 @ ''<p>Site ID: <strong>'' @ slug @ ''</strong></p>'' @
     newline @ indent 24 @ ''<a href="'' @ url @ ''" target="_blank" id="result-url">'' @
     newline @ indent 28 @ ''Go to Site'' @
     newline @ indent 24 @ ''</a>'' @
     newline @ indent 20\<close>

text \<open>The substitutions are evaluated left to right; the first throw ends the evaluation.\<close>

definition success_template :: "engine \<Rightarrow> json \<Rightarrow> js_error + string" where
  "success_template eng data =
     (case substitution eng data ''slug'' of
        Inl e \<Rightarrow> Inl e
      | Inr slug \<Rightarrow>
          (case substitution eng data ''url'' of
             Inl e \<Rightarrow> Inl e
           | Inr url \<Rightarrow> Inr (success_html slug url)))"

subsection \<open>The submit listener\<close>

text \<open>Line 11 and line 12: an empty string is the only falsy value of an input.\<close>

definition url_of :: "page \<Rightarrow> string" where
  "url_of s = repoUrlInput_value s"

definition base_path_of :: "page \<Rightarrow> string" where
  "base_path_of s = (if basePathInput_value s \<noteq> [] then basePathInput_value s else ''/'')"

text \<open>Line 9 and lines 15 to 20.\<close>

definition start :: "page \<Rightarrow> page" where
  "start s =
     s\<lparr>default_prevented := True,
       button_disabled := True,
       button_textContent := ''Deploying...'',
       loading_display := ''block'',
       result_display := ''none'',
       result_innerHTML := [],
       result_className := []\<rparr>"

definition deploy_request :: "string \<Rightarrow> string \<Rightarrow> request" where
  "deploy_request url base_path =
     \<lparr>resource = ''/api/deploy'',
      http_method = ''POST'',
      headers = [(''Content-Type'', ''application/json'')],
      body = JSON_stringify url base_path\<rparr>"

text \<open>Lines 32 to 40: the class is set before the template is evaluated.\<close>

definition render_success :: "engine \<Rightarrow> json \<Rightarrow> page \<Rightarrow> unit completion" where
  "render_success eng data s =
     (let s1 = s\<lparr>result_className := ''success''\<rparr>
      in case success_template eng data of
           Inl e \<Rightarrow> Throw e s1
         | Inr html \<Rightarrow> Normal () (s1\<lparr>result_innerHTML := html\<rparr>))"

text \<open>Lines 42 and 43: an empty body text is falsy and gives way to the fixed text.\<close>

definition server_error :: "response \<Rightarrow> string \<Rightarrow> js_error" where
  "server_error response text =
     (let errorText = (if text \<noteq> [] then text else ''Deployment failed.'')
      in JsError ''Error''
           (''Server error: '' @ Number_toString (status response) @ '' '' @ errorText))"

text \<open>Lines 23 to 44, the body of \<^verbatim>\<open>try\<close>.\<close>

definition try_block ::
  "engine \<Rightarrow> (request \<Rightarrow> response promise) \<Rightarrow> string \<Rightarrow> string \<Rightarrow> page \<Rightarrow> unit completion" where
  "try_block eng fetch url base_path s =
     (let rq = deploy_request url base_path
      in and_then (await (fetch rq) (s\<lparr>fetch_calls := fetch_calls s @ [rq]\<rparr>))
           (\<lambda>response s1.
              if ok response
              then and_then (await (json_body response) s1) (render_success eng)
              else and_then (await (text_body response) s1)
                     (\<lambda>text s2. Throw (server_error response text) s2)))"

text \<open>Lines 46 to 48.\<close>

definition catch_block :: "js_error \<Rightarrow> page \<Rightarrow> unit completion" where
  "catch_block err s =
     Normal ()
       (s\<lparr>result_className := ''error'',
          result_innerHTML := ''<strong>Error:</strong> '' @ message err,
          console_errors := console_errors s @ [err]\<rparr>)"

text \<open>Lines 51 to 54.\<close>

definition finally_block :: "page \<Rightarrow> unit completion" where
  "finally_block s =
     Normal ()
       (s\<lparr>button_disabled := False,
          button_textContent := ''Deploy'',
          loading_display := ''none'',
          result_display := ''block''\<rparr>)"

text \<open>The listener of lines 8 to 55, run on one \<^verbatim>\<open>submit\<close> event.\<close>

definition submit_listener ::
  "engine \<Rightarrow> (request \<Rightarrow> response promise) \<Rightarrow> page \<Rightarrow> unit completion" where
  "submit_listener eng fetch s =
     try_catch_finally (try_block eng fetch (url_of s) (base_path_of s))
       catch_block finally_block (start s)"

subsection \<open>Settled runs\<close>

text \<open>
  The listener has no timeout: it runs to its end exactly when the promises it awaits
  settle. It awaits \<^verbatim>\<open>fetch\<close>, and then the one body reader its branch calls.
\<close>

definition settles :: "(request \<Rightarrow> response promise) \<Rightarrow> page \<Rightarrow> bool" where
  "settles fetch s =
     (case fetch (deploy_request (url_of s) (base_path_of s)) of
        Pending \<Rightarrow> False
      | Rejected e \<Rightarrow> True
      | Fulfilled response \<Rightarrow>
          (if ok response then json_body response \<noteq> Pending
           else text_body response \<noteq> Pending))"

subsection \<open>Concrete pages, engines and networks\<close>

text \<open>The two messages as V8 words them; \<^verbatim>\<open>CHR 0x27\<close> is the single quote.\<close>

definition v8 :: engine where
  "v8 =
     \<lparr>null_read_message =
        (\<lambda>k. ''Cannot read properties of null (reading '' @ [CHR 0x27] @ k @ [CHR 0x27] @ '')''),
      to_primitive_message = ''Cannot convert object to primitive value''\<rparr>"

text \<open>A page at rest whose two inputs hold the given texts.\<close>

definition form_page :: "string \<Rightarrow> string \<Rightarrow> page" where
  "form_page url base_path =
     \<lparr>repoUrlInput_value = url,
      basePathInput_value = base_path,
      button_disabled = False,
      button_textContent = ''Deploy'',
      loading_display = ''none'',
      result_display = ''none'',
      result_innerHTML = [],
      result_className = [],
      default_prevented = False,
      fetch_calls = [],
      console_errors = []\<rparr>"

text \<open>A network that answers every request with the same response, and one that is down.\<close>

definition reply :: "response \<Rightarrow> request \<Rightarrow> response promise" where
  "reply response rq = Fulfilled response"

definition network_down :: "request \<Rightarrow> response promise" where
  "network_down rq = Rejected (JsError ''TypeError'' ''Failed to fetch'')"

text \<open>A response whose body is the text of a JSON value, and one whose body is plain text.\<close>

definition json_response :: "nat \<Rightarrow> json \<Rightarrow> string \<Rightarrow> response" where
  "json_response code data text =
     \<lparr>status = code, json_body = Fulfilled data, text_body = Fulfilled text\<rparr>"

definition text_response :: "nat \<Rightarrow> string \<Rightarrow> response" where
  "text_response code text =
     \<lparr>status = code,
      json_body = Rejected (JsError ''SyntaxError'' ''Unexpected end of JSON input''),
      text_body = Fulfilled text\<rparr>"

definition site_response :: response where
  \<open>site_response =
     json_response 200
       (JObject [(''slug'', JString ''abc123''), (''url'', JString ''https://abc123.example.com'')])
       ''{"slug":"abc123","url":"https://abc123.example.com"}''\<close>

definition null_response :: response where
  "null_response = json_response 200 JNull ''null''"

definition repo_page :: page where
  "repo_page = form_page ''https://example.com/repo.git'' []"

text \<open>
  Parsed data that has no string conversion: an object with a member of its own called
  \<^verbatim>\<open>toString\<close>, as in the body \<^verbatim>\<open>{"toString": 1}\<close>.
\<close>

definition unprintable :: json where
  "unprintable = JObject [(''toString'', JNumber ''1'')]"

definition unprintable_slug_response :: response where
  "unprintable_slug_response =
     json_response 200
       (JObject [(''slug'', unprintable), (''url'', JString ''https://abc123.example.com'')]) []"

definition unprintable_url_response :: response where
  "unprintable_url_response = json_response 200 (JObject [(''url'', unprintable)]) []"

definition unprintable_slug_only_response :: response where
  "unprintable_slug_only_response = json_response 200 (JObject [(''slug'', unprintable)]) []"

definition url_only_response :: response where
  "url_only_response =
     json_response 200 (JObject [(''url'', JString ''https://abc123.example.com'')]) []"

definition slug_only_response :: response where
  "slug_only_response = json_response 200 (JObject [(''slug'', JString ''abc123'')]) []"

definition markup_response :: response where
  \<open>markup_response =
     json_response 200
       (JObject [(''slug'', JString ''<img src=x onerror=alert(1)>''),
                 (''url'', JString ''"><script>alert(2)</script>'')]) []\<close>

text \<open>The page of scenario A with the button already disabled, and with another label.\<close>

definition busy_page :: page where
  "busy_page = repo_page\<lparr>button_disabled := True\<rparr>"

definition launch_page :: page where
  "launch_page = repo_page\<lparr>button_textContent := ''Launch''\<rparr>"

text \<open>The defining equations that evaluate the listener on a concrete page and network.\<close>

lemmas run_simps =
  submit_listener_def try_catch_finally_def try_block_def catch_block_def finally_block_def
  render_success_def success_template_def substitution_def server_error_def start_def
  deploy_request_def url_of_def base_path_of_def settles_def ok_def reply_def
  network_down_def json_response_def text_response_def form_page_def repo_page_def
  site_response_def null_response_def v8_def Let_def unprintable_def
  unprintable_slug_response_def unprintable_url_response_def url_only_response_def
  slug_only_response_def unprintable_slug_only_response_def   markup_response_def busy_page_def launch_page_def

section \<open>Properties\<close>

subsection \<open>How the listener ends\<close>

lemma and_then_await:
  "and_then (await p s) f =
     (case p of Pending \<Rightarrow> Suspended s | Rejected e \<Rightarrow> Throw e s | Fulfilled v \<Rightarrow> f v s)"
  by (cases p) simp_all

lemma try_block_unfold:
  "try_block eng fetch url base_path s =
     (let s1 = s\<lparr>fetch_calls := fetch_calls s @ [deploy_request url base_path]\<rparr>
      in case fetch (deploy_request url base_path) of
           Pending \<Rightarrow> Suspended s1
         | Rejected e \<Rightarrow> Throw e s1
         | Fulfilled response \<Rightarrow>
             if ok response
             then (case json_body response of
                     Pending \<Rightarrow> Suspended s1
                   | Rejected e \<Rightarrow> Throw e s1
                   | Fulfilled data \<Rightarrow> render_success eng data s1)
             else (case text_body response of
                     Pending \<Rightarrow> Suspended s1
                   | Rejected e \<Rightarrow> Throw e s1
                   | Fulfilled text \<Rightarrow> Throw (server_error response text) s1))"
  by (simp add: try_block_def Let_def and_then_await split: promise.splits)

lemma listener_after_Normal:
  assumes "try_block eng fetch (url_of s) (base_path_of s) (start s) = Normal u s1"
  shows "submit_listener eng fetch s =
           Normal () (s1\<lparr>button_disabled := False, button_textContent := ''Deploy'',
                         loading_display := ''none'', result_display := ''block''\<rparr>)"
  using assms by (simp add: submit_listener_def try_catch_finally_def finally_block_def)

lemma listener_after_Throw:
  assumes "try_block eng fetch (url_of s) (base_path_of s) (start s) = Throw err s1"
  shows "submit_listener eng fetch s =
           Normal () (s1\<lparr>result_className := ''error'',
                         result_innerHTML := ''<strong>Error:</strong> '' @ message err,
                         console_errors := console_errors s1 @ [err],
                         button_disabled := False, button_textContent := ''Deploy'',
                         loading_display := ''none'', result_display := ''block''\<rparr>)"
  using assms
  by (simp add: submit_listener_def try_catch_finally_def catch_block_def finally_block_def)

lemma listener_after_Suspended:
  assumes "try_block eng fetch (url_of s) (base_path_of s) (start s) = Suspended s1"
  shows "submit_listener eng fetch s = Suspended s1"
  using assms by (simp add: submit_listener_def try_catch_finally_def)

lemma try_block_fetch_calls:
  "fetch_calls (page_of (try_block eng fetch url base_path s)) =
     fetch_calls s @ [deploy_request url base_path]"
  by (auto simp: try_block_unfold Let_def render_success_def split: promise.splits sum.splits)

lemma try_block_console:
  "console_errors (page_of (try_block eng fetch url base_path s)) = console_errors s"
  by (auto simp: try_block_unfold Let_def render_success_def split: promise.splits sum.splits)

lemma try_block_Normal_class:
  "try_block eng fetch url base_path s = Normal u s1 \<Longrightarrow> result_className s1 = ''success''"
  by (auto simp: try_block_unfold Let_def render_success_def
           split: promise.splits sum.splits if_splits)

lemma try_block_Suspended_iff:
  "(\<exists>s1. try_block eng fetch (url_of s) (base_path_of s) (start s) = Suspended s1) \<longleftrightarrow>
     \<not> settles fetch s"
  by (auto simp: try_block_unfold settles_def Let_def render_success_def
           split: promise.splits sum.splits if_splits)

text \<open>
  The three ways the listener can end, read off the \<^verbatim>\<open>try\<close> block: a settled run ends
  normally, after the \<^verbatim>\<open>finally\<close> block alone or after \<^verbatim>\<open>catch\<close> and \<^verbatim>\<open>finally\<close>.
\<close>

lemma settled_listener:
  assumes "settles fetch s"
  obtains (finished) s1 where
      "try_block eng fetch (url_of s) (base_path_of s) (start s) = Normal () s1"
      "submit_listener eng fetch s =
         Normal () (s1\<lparr>button_disabled := False, button_textContent := ''Deploy'',
                       loading_display := ''none'', result_display := ''block''\<rparr>)"
    | (caught) err s1 where
      "try_block eng fetch (url_of s) (base_path_of s) (start s) = Throw err s1"
      "submit_listener eng fetch s =
         Normal () (s1\<lparr>result_className := ''error'',
                       result_innerHTML := ''<strong>Error:</strong> '' @ message err,
                       console_errors := console_errors s1 @ [err],
                       button_disabled := False, button_textContent := ''Deploy'',
                       loading_display := ''none'', result_display := ''block''\<rparr>)"
proof (cases "try_block eng fetch (url_of s) (base_path_of s) (start s)")
  case (Normal u s1)
  then show ?thesis using finished listener_after_Normal by simp
next
  case (Throw err s1)
  then show ?thesis using caught listener_after_Throw by simp
next
  case (Suspended s1)
  then have "\<not> settles fetch s" using try_block_Suspended_iff by blast
  with assms show ?thesis by simp
qed

lemma listener_Normal_iff:
  "is_Normal (submit_listener eng fetch s) \<longleftrightarrow> settles fetch s"
proof
  assume "settles fetch s"
  then show "is_Normal (submit_listener eng fetch s)"
    by (cases rule: settled_listener [where eng = eng]) simp_all
next
  assume n: "is_Normal (submit_listener eng fetch s)"
  show "settles fetch s"
  proof (rule ccontr)
    assume "\<not> settles fetch s"
    then obtain s1 where
      "try_block eng fetch (url_of s) (base_path_of s) (start s) = Suspended s1"
      using try_block_Suspended_iff by blast
    then have "submit_listener eng fetch s = Suspended s1"
      by (rule listener_after_Suspended)
    with n show False by simp
  qed
qed

lemma listener_never_throws: "submit_listener eng fetch s \<noteq> Throw err s'"
proof (cases "try_block eng fetch (url_of s) (base_path_of s) (start s)")
  case (Normal u s1)
  from listener_after_Normal [OF Normal] show ?thesis by simp
next
  case (Throw e s1)
  from listener_after_Throw [OF Throw] show ?thesis by simp
next
  case (Suspended s1)
  from listener_after_Suspended [OF Suspended] show ?thesis by simp
qed

lemma listener_fetch_calls:
  "fetch_calls (page_of (submit_listener eng fetch s)) =
     fetch_calls s @ [deploy_request (url_of s) (base_path_of s)]"
proof -
  let ?t = "try_block eng fetch (url_of s) (base_path_of s) (start s)"
  have t: "fetch_calls (page_of ?t) = fetch_calls s @ [deploy_request (url_of s) (base_path_of s)]"
    by (simp add: try_block_fetch_calls start_def)
  show ?thesis
  proof (cases ?t)
    case (Normal u s1)
    with t listener_after_Normal [OF Normal] show ?thesis by simp
  next
    case (Throw err s1)
    with t listener_after_Throw [OF Throw] show ?thesis by simp
  next
    case (Suspended s1)
    with t listener_after_Suspended [OF Suspended] show ?thesis by simp
  qed
qed

lemma try_block_start_console:
  assumes "try_block eng fetch (url_of s) (base_path_of s) (start s) = Throw err s1"
  shows "console_errors s1 = console_errors s"
proof -
  have "console_errors (page_of (try_block eng fetch (url_of s) (base_path_of s) (start s))) =
          console_errors (start s)"
    by (rule try_block_console)
  with assms show ?thesis by (simp add: start_def)
qed

text \<open>The three failures of the request phase, as throws of the \<^verbatim>\<open>try\<close> block.\<close>

lemma transport_failure_throws:
  assumes "fetch (deploy_request url base_path) = Rejected err"
  shows "\<exists>s1. try_block eng fetch url base_path s = Throw err s1"
  using assms by (simp add: try_block_unfold Let_def)

lemma parse_failure_throws:
  assumes "fetch (deploy_request url base_path) = Fulfilled response" "ok response"
    "json_body response = Rejected err"
  shows "\<exists>s1. try_block eng fetch url base_path s = Throw err s1"
  using assms by (simp add: try_block_unfold Let_def)

lemma server_failure_throws:
  assumes "fetch (deploy_request url base_path) = Fulfilled response" "\<not> ok response"
    "text_body response = Fulfilled text"
  shows "\<exists>s1. try_block eng fetch url base_path s = Throw (server_error response text) s1"
  using assms by (simp add: try_block_unfold Let_def)

subsection \<open>The encodings\<close>

text \<open>\<open>Number_toString\<close> writes the decimal digits of its argument.\<close>

lemma digit_char:
  assumes "d < 10"
  shows "of_char (''0123456789'' ! d) = (48 + d :: nat)"
proof -
  have "d = 0 \<or> d = 1 \<or> d = 2 \<or> d = 3 \<or> d = 4 \<or> d = 5 \<or> d = 6 \<or> d = 7 \<or> d = 8 \<or> d = 9"
    using assms by arith
  then show ?thesis by (elim disjE) simp_all
qed

lemma read_decimal_snoc: "read_decimal (ds @ [c]) = 10 * read_decimal ds + (of_char c - 48)"
  by (simp add: read_decimal_def)

lemma read_decimal_Number_toString: "read_decimal (Number_toString n) = n"
proof (induction n rule: Number_toString.induct)
  case (1 n)
  show ?case
  proof (cases "n < 10")
    case True
    then show ?thesis
      by (subst Number_toString.simps) (simp add: read_decimal_def digit_char)
  next
    case False
    with 1 have "read_decimal (Number_toString (n div 10)) = n div 10" by simp
    with False show ?thesis
      by (subst Number_toString.simps) (simp add: read_decimal_snoc digit_char)
  qed
qed

text \<open>
  The body of the request determines the two strings it was made from: no two pairs of
  strings have the same JSON text.
\<close>

lemma hex_digit_inj:
  assumes "a < 16" "b < 16" "hex_digit a = hex_digit b"
  shows "a = b"
proof -
  have A: "a = 0 \<or> a = 1 \<or> a = 2 \<or> a = 3 \<or> a = 4 \<or> a = 5 \<or> a = 6 \<or> a = 7 \<or> a = 8 \<or> a = 9
      \<or> a = 10 \<or> a = 11 \<or> a = 12 \<or> a = 13 \<or> a = 14 \<or> a = 15"
    using assms(1) by arith
  have B: "b = 0 \<or> b = 1 \<or> b = 2 \<or> b = 3 \<or> b = 4 \<or> b = 5 \<or> b = 6 \<or> b = 7 \<or> b = 8 \<or> b = 9
      \<or> b = 10 \<or> b = 11 \<or> b = 12 \<or> b = 13 \<or> b = 14 \<or> b = 15"
    using assms(2) by arith
  from A B assms(3) show ?thesis
    by (elim disjE) (simp_all add: hex_digit_def)
qed

lemma hex_digit_mod: "hex_digit (n mod 16) = hex_digit n"
  by (simp add: hex_digit_def)

lemma control_char_eq:
  assumes "(of_char a :: nat) < 32" "(of_char b :: nat) < 32"
    and "hex_digit (of_char a div 16) = hex_digit (of_char b div 16)"
    and "hex_digit (of_char a) = hex_digit (of_char b)"
  shows "a = b"
proof -
  let ?m = "of_char a :: nat" and ?n = "of_char b :: nat"
  have "?m div 16 < 16" "?n div 16 < 16" using assms(1,2) by simp_all
  with assms(3) have hi: "?m div 16 = ?n div 16" using hex_digit_inj by blast
  have "hex_digit (?m mod 16) = hex_digit (?n mod 16)"
    using assms(4) by (simp only: hex_digit_mod)
  moreover have "?m mod 16 < 16" "?n mod 16 < 16" by simp_all
  ultimately have lo: "?m mod 16 = ?n mod 16" using hex_digit_inj by blast
  have "?m = 16 * (?m div 16) + ?m mod 16" by simp
  also have "\<dots> = 16 * (?n div 16) + ?n mod 16" using hi lo by simp
  also have "\<dots> = ?n" by simp
  finally show ?thesis by simp
qed

lemma QuoteJSONChar_prefix:
  assumes "QuoteJSONChar a @ xs = QuoteJSONChar b @ ys"
  shows "a = b \<and> xs = ys"
  using assms
  by (auto simp: QuoteJSONChar_def split: if_splits dest: control_char_eq)

lemma QuoteJSONChar_head:
  "\<exists>x xs. QuoteJSONChar c = x # xs \<and> x \<noteq> CHR 0x22"
  by (simp add: QuoteJSONChar_def)

lemma quoted_prefix:
  assumes "concat (map QuoteJSONChar s) @ CHR 0x22 # r =
           concat (map QuoteJSONChar s') @ CHR 0x22 # r'"
  shows "s = s' \<and> r = r'"
  using assms
proof (induction s arbitrary: s')
  case Nil
  show ?case
  proof (cases s')
    case Nil
    with Nil.prems show ?thesis by simp
  next
    case (Cons c cs)
    obtain x xs where "QuoteJSONChar c = x # xs" "x \<noteq> CHR 0x22"
      using QuoteJSONChar_head by blast
    with Nil.prems Cons show ?thesis by simp
  qed
next
  case (Cons a as)
  show ?case
  proof (cases s')
    case Nil
    obtain x xs where "QuoteJSONChar a = x # xs" "x \<noteq> CHR 0x22"
      using QuoteJSONChar_head by blast
    with Cons.prems Nil show ?thesis by simp
  next
    case (Cons c cs)
    with Cons.prems have
      "QuoteJSONChar a @ (concat (map QuoteJSONChar as) @ CHR 0x22 # r) =
       QuoteJSONChar c @ (concat (map QuoteJSONChar cs) @ CHR 0x22 # r')"
      by simp
    then have "a = c" and
      "concat (map QuoteJSONChar as) @ CHR 0x22 # r =
       concat (map QuoteJSONChar cs) @ CHR 0x22 # r'"
      using QuoteJSONChar_prefix by blast+
    with Cons.IH Cons show ?thesis by simp
  qed
qed

lemma JSON_stringify_inj:
  assumes "JSON_stringify url base_path = JSON_stringify url' base_path'"
  shows "url = url' \<and> base_path = base_path'"
proof -
  let ?mid = "'','' @ QuoteJSONString ''base_path'' @ '':''"
  from assms have
    "concat (map QuoteJSONChar url) @ CHR 0x22 # (?mid @ QuoteJSONString base_path @ ''}'') =
     concat (map QuoteJSONChar url') @ CHR 0x22 # (?mid @ QuoteJSONString base_path' @ ''}'')"
    by (simp add: JSON_stringify_def QuoteJSONString_def)
  then have u: "url = url'" and
    "?mid @ QuoteJSONString base_path @ ''}'' = ?mid @ QuoteJSONString base_path' @ ''}''"
    using quoted_prefix by blast+
  then have "concat (map QuoteJSONChar base_path) @ CHR 0x22 # ''}'' =
             concat (map QuoteJSONChar base_path') @ CHR 0x22 # ''}''"
    by (simp add: QuoteJSONString_def)
  then have "base_path = base_path'" using quoted_prefix by blast
  with u show ?thesis by simp
qed

subsection \<open>The request\<close>

text \<open>
  Claim C1. Whatever the page holds and however the network answers, the listener calls
  \<^verbatim>\<open>fetch\<close> exactly once: the list of calls grows by one entry, also when the listener then
  stays suspended. That call goes to \<^verbatim>\<open>/api/deploy\<close> with the method \<^verbatim>\<open>POST\<close>, the single
  header \<^verbatim>\<open>Content-Type: application/json\<close> and, as body, the JSON text of the object with
  the members \<^verbatim>\<open>url\<close> and \<^verbatim>\<open>base_path\<close>. The \<^verbatim>\<open>url\<close> member is the value of the url input as it
  is, empty or not; the \<^verbatim>\<open>base_path\<close> member is \<^verbatim>\<open>/\<close> when the base-path input is empty and
  the value of that input otherwise. By \<open>JSON_stringify_inj\<close> the body holds both strings
  without loss.
\<close>

theorem one_post_request:
  "fetch_calls (page_of (submit_listener eng fetch s)) =
     fetch_calls s @
     [\<lparr>resource = ''/api/deploy'',
       http_method = ''POST'',
       headers = [(''Content-Type'', ''application/json'')],
       body = JSON_stringify (repoUrlInput_value s)
                (if basePathInput_value s = [] then ''/'' else basePathInput_value s)\<rparr>]"
  by (simp add: listener_fetch_calls deploy_request_def url_of_def base_path_of_def)

text \<open>
  The request of scenario A (empty base path), and the request of a submission with an
  empty url and the base path \<^verbatim>\<open>/docs\<close> on a network that is down.
\<close>

theorem one_post_request_witness:
  \<open>fetch_calls (page_of (submit_listener v8 (reply site_response) repo_page)) =
     [\<lparr>resource = ''/api/deploy'',
       http_method = ''POST'',
       headers = [(''Content-Type'', ''application/json'')],
       body = ''{"url":"https://example.com/repo.git","base_path":"/"}''\<rparr>]
   \<and> fetch_calls (page_of (submit_listener v8 network_down (form_page [] ''/docs''))) =
     [\<lparr>resource = ''/api/deploy'',
       http_method = ''POST'',
       headers = [(''Content-Type'', ''application/json'')],
       body = ''{"url":"","base_path":"/docs"}''\<rparr>]\<close>
  using one_post_request [of v8 "reply site_response" repo_page]
    one_post_request [of v8 network_down "form_page [] ''/docs''"]
  by (simp add: repo_page_def form_page_def JSON_stringify_def QuoteJSONString_def
        QuoteJSONChar_def)

subsection \<open>Settlement\<close>

text \<open>
  Claim C2. When the awaited promises settle (a 2xx response whose body reader settles
  either way, another response whose text reader settles either way, or a rejected
  \<^verbatim>\<open>fetch\<close>), the listener runs to its end, and the result panel is then displayed as a
  block with a class that is \<^verbatim>\<open>success\<close> or \<^verbatim>\<open>error\<close>, and not both.
\<close>

theorem panel_success_or_error:
  assumes "settles fetch s"
  shows "is_Normal (submit_listener eng fetch s) \<and>
         result_display (page_of (submit_listener eng fetch s)) = ''block'' \<and>
         (result_className (page_of (submit_listener eng fetch s)) = ''success'' \<or>
          result_className (page_of (submit_listener eng fetch s)) = ''error'') \<and>
         \<not> (result_className (page_of (submit_listener eng fetch s)) = ''success'' \<and>
            result_className (page_of (submit_listener eng fetch s)) = ''error'')"
  using assms
proof (cases rule: settled_listener [where eng = eng])
  case (finished s1)
  then show ?thesis using try_block_Normal_class [OF finished(1)] by simp
next
  case (caught err s1)
  then show ?thesis by simp
qed

text \<open>Scenario A ends in the success style, scenario B in the error style.\<close>

theorem panel_success_or_error_witness:
  "settles (reply site_response) repo_page \<and>
   result_display (page_of (submit_listener v8 (reply site_response) repo_page)) = ''block'' \<and>
   result_className (page_of (submit_listener v8 (reply site_response) repo_page)) =
     ''success'' \<and>
   settles (reply (text_response 500 ''internal failure'')) repo_page \<and>
   result_display (page_of (submit_listener v8
     (reply (text_response 500 ''internal failure'')) repo_page)) = ''block'' \<and>
   result_className (page_of (submit_listener v8
     (reply (text_response 500 ''internal failure'')) repo_page)) = ''error''"
proof -
  have a: "settles (reply site_response) repo_page"
    by (simp add: run_simps)
  have b: "settles (reply (text_response 500 ''internal failure'')) repo_page"
    by (simp add: run_simps)
  have c: "result_className (page_of (submit_listener v8 (reply site_response) repo_page)) =
             ''success''"
    by (simp add: run_simps)
  have d: "result_className (page_of (submit_listener v8
             (reply (text_response 500 ''internal failure'')) repo_page)) = ''error''"
    by (simp add: run_simps)
  from panel_success_or_error [OF a, of v8] panel_success_or_error [OF b, of v8] a b c d
  show ?thesis by simp
qed

text \<open>
  Claim C3. On every path on which the awaited promises settle (success, a response
  outside 200 to 299, a rejected \<^verbatim>\<open>fetch\<close>, a body that does not parse) the listener reaches
  its end through the \<^verbatim>\<open>finally\<close> block: the button is enabled, the loading indicator is
  hidden and the result panel is displayed.
\<close>

theorem settlement_always_runs:
  assumes "settles fetch s"
  shows "is_Normal (submit_listener eng fetch s) \<and>
         \<not> button_disabled (page_of (submit_listener eng fetch s)) \<and>
         loading_display (page_of (submit_listener eng fetch s)) = ''none'' \<and>
         result_display (page_of (submit_listener eng fetch s)) = ''block''"
  using assms
  by (cases rule: settled_listener [where eng = eng]) simp_all

text \<open>
  The four paths: scenario A, a status 500, a network that is down (scenario D) and a
  status 200 whose body is not JSON.
\<close>

theorem settlement_always_runs_witness:
  "(settles (reply site_response) repo_page \<and>
    is_Normal (submit_listener v8 (reply site_response) repo_page) \<and>
    \<not> button_disabled (page_of (submit_listener v8 (reply site_response) repo_page)) \<and>
    loading_display (page_of (submit_listener v8 (reply site_response) repo_page)) = ''none'' \<and>
    result_display (page_of (submit_listener v8 (reply site_response) repo_page)) = ''block'') \<and>
   (settles (reply (text_response 500 [])) repo_page \<and>
    is_Normal (submit_listener v8 (reply (text_response 500 [])) repo_page) \<and>
    \<not> button_disabled (page_of (submit_listener v8 (reply (text_response 500 [])) repo_page)) \<and>
    loading_display (page_of (submit_listener v8 (reply (text_response 500 [])) repo_page)) =
      ''none'' \<and>
    result_display (page_of (submit_listener v8 (reply (text_response 500 [])) repo_page)) =
      ''block'') \<and>
   (settles network_down repo_page \<and>
    is_Normal (submit_listener v8 network_down repo_page) \<and>
    \<not> button_disabled (page_of (submit_listener v8 network_down repo_page)) \<and>
    loading_display (page_of (submit_listener v8 network_down repo_page)) = ''none'' \<and>
    result_display (page_of (submit_listener v8 network_down repo_page)) = ''block'') \<and>
   (settles (reply (text_response 200 ''<html>'')) repo_page \<and>
    is_Normal (submit_listener v8 (reply (text_response 200 ''<html>'')) repo_page) \<and>
    \<not> button_disabled
        (page_of (submit_listener v8 (reply (text_response 200 ''<html>'')) repo_page)) \<and>
    loading_display
        (page_of (submit_listener v8 (reply (text_response 200 ''<html>'')) repo_page)) =
      ''none'' \<and>
    result_display
        (page_of (submit_listener v8 (reply (text_response 200 ''<html>'')) repo_page)) =
      ''block'')"
proof -
  have a: "settles (reply site_response) repo_page"
    by (simp add: run_simps)
  have b: "settles (reply (text_response 500 [])) repo_page"
    by (simp add: run_simps)
  have c: "settles network_down repo_page"
    by (simp add: run_simps)
  have d: "settles (reply (text_response 200 ''<html>'')) repo_page"
    by (simp add: run_simps)
  from settlement_always_runs [OF a, of v8] settlement_always_runs [OF b, of v8]
    settlement_always_runs [OF c, of v8] settlement_always_runs [OF d, of v8] a b c d
  show ?thesis by blast
qed

subsection \<open>Failures\<close>

text \<open>
  Claim C4. The listener never ends by a throw. Every throw of the \<^verbatim>\<open>try\<close> block (a rejected
  \<^verbatim>\<open>fetch\<close>, the error raised for a status outside 200 to 299, a body that does not parse)
  is caught: the listener ends normally, the panel has the class \<^verbatim>\<open>error\<close> and the content
  \<^verbatim>\<open><strong>Error:</strong>\<close>, a space and the message of the thrown value, and that value
  is logged to the console once.
\<close>

theorem failures_caught_once:
  "(\<forall>err s'. submit_listener eng fetch s \<noteq> Throw err s') \<and>
   (\<forall>err s1. try_block eng fetch (url_of s) (base_path_of s) (start s) = Throw err s1 \<longrightarrow>
      is_Normal (submit_listener eng fetch s) \<and>
      result_className (page_of (submit_listener eng fetch s)) = ''error'' \<and>
      result_innerHTML (page_of (submit_listener eng fetch s)) =
        ''<strong>Error:</strong> '' @ message err \<and>
      console_errors (page_of (submit_listener eng fetch s)) = console_errors s @ [err])"
proof (intro conjI allI impI)
  fix err s'
  show "submit_listener eng fetch s \<noteq> Throw err s'" by (rule listener_never_throws)
next
  fix err s1
  assume t: "try_block eng fetch (url_of s) (base_path_of s) (start s) = Throw err s1"
  note l = listener_after_Throw [OF t] and c = try_block_start_console [OF t]
  show "is_Normal (submit_listener eng fetch s)" using l by simp
  show "result_className (page_of (submit_listener eng fetch s)) = ''error''" using l by simp
  show "result_innerHTML (page_of (submit_listener eng fetch s)) =
          ''<strong>Error:</strong> '' @ message err" using l by simp
  show "console_errors (page_of (submit_listener eng fetch s)) = console_errors s @ [err]"
    using l c by simp
qed

text \<open>
  The three failures: the network is down (scenario D), a status 200 whose body is not
  JSON, and a status 500 (scenario B). Each is thrown by the \<^verbatim>\<open>try\<close> block on the page as
  it is after the \<^verbatim>\<open>fetch\<close> call.
\<close>

theorem failures_caught_once_witness:
  "(try_block v8 network_down (url_of repo_page) (base_path_of repo_page) (start repo_page) =
      Throw (JsError ''TypeError'' ''Failed to fetch'')
        ((start repo_page)\<lparr>fetch_calls :=
           [deploy_request (url_of repo_page) (base_path_of repo_page)]\<rparr>) \<and>
    is_Normal (submit_listener v8 network_down repo_page) \<and>
    result_className (page_of (submit_listener v8 network_down repo_page)) = ''error'' \<and>
    result_innerHTML (page_of (submit_listener v8 network_down repo_page)) =
      ''<strong>Error:</strong> Failed to fetch'' \<and>
    console_errors (page_of (submit_listener v8 network_down repo_page)) =
      [JsError ''TypeError'' ''Failed to fetch'']) \<and>
   (try_block v8 (reply (text_response 200 ''<html>'')) (url_of repo_page)
        (base_path_of repo_page) (start repo_page) =
      Throw (JsError ''SyntaxError'' ''Unexpected end of JSON input'')
        ((start repo_page)\<lparr>fetch_calls :=
           [deploy_request (url_of repo_page) (base_path_of repo_page)]\<rparr>) \<and>
    is_Normal (submit_listener v8 (reply (text_response 200 ''<html>'')) repo_page) \<and>
    result_className
        (page_of (submit_listener v8 (reply (text_response 200 ''<html>'')) repo_page)) =
      ''error'' \<and>
    result_innerHTML
        (page_of (submit_listener v8 (reply (text_response 200 ''<html>'')) repo_page)) =
      ''<strong>Error:</strong> Unexpected end of JSON input'' \<and>
    console_errors
        (page_of (submit_listener v8 (reply (text_response 200 ''<html>'')) repo_page)) =
      [JsError ''SyntaxError'' ''Unexpected end of JSON input'']) \<and>
   (try_block v8 (reply (text_response 500 ''internal failure'')) (url_of repo_page)
        (base_path_of repo_page) (start repo_page) =
      Throw (JsError ''Error'' ''Server error: 500 internal failure'')
        ((start repo_page)\<lparr>fetch_calls :=
           [deploy_request (url_of repo_page) (base_path_of repo_page)]\<rparr>) \<and>
    is_Normal (submit_listener v8 (reply (text_response 500 ''internal failure'')) repo_page) \<and>
    result_className (page_of
        (submit_listener v8 (reply (text_response 500 ''internal failure'')) repo_page)) =
      ''error'' \<and>
    result_innerHTML (page_of
        (submit_listener v8 (reply (text_response 500 ''internal failure'')) repo_page)) =
      ''<strong>Error:</strong> Server error: 500 internal failure'' \<and>
    console_errors (page_of
        (submit_listener v8 (reply (text_response 500 ''internal failure'')) repo_page)) =
      [JsError ''Error'' ''Server error: 500 internal failure''])"
proof -
  let ?s1 = "(start repo_page)\<lparr>fetch_calls :=
               [deploy_request (url_of repo_page) (base_path_of repo_page)]\<rparr>"
  have n: "Number_toString 500 = ''500''" by code_simp
  have c: "console_errors repo_page = []"
    by (simp add: repo_page_def form_page_def)
  have f: "fetch_calls (start repo_page) = []"
    by (simp add: start_def repo_page_def form_page_def)
  have t1: "try_block v8 network_down (url_of repo_page) (base_path_of repo_page)
              (start repo_page) =
            Throw (JsError ''TypeError'' ''Failed to fetch'') ?s1"
    by (simp add: try_block_unfold network_down_def f)
  have t2: "try_block v8 (reply (text_response 200 ''<html>'')) (url_of repo_page)
              (base_path_of repo_page) (start repo_page) =
            Throw (JsError ''SyntaxError'' ''Unexpected end of JSON input'') ?s1"
    by (simp add: try_block_unfold reply_def text_response_def ok_def f)
  have t3: "try_block v8 (reply (text_response 500 ''internal failure'')) (url_of repo_page)
              (base_path_of repo_page) (start repo_page) =
            Throw (JsError ''Error'' ''Server error: 500 internal failure'') ?s1"
    by (simp add: try_block_unfold reply_def text_response_def ok_def server_error_def n f)
  from failures_caught_once [of v8 network_down repo_page] t1 c
  have w1: "is_Normal (submit_listener v8 network_down repo_page) \<and>
    result_className (page_of (submit_listener v8 network_down repo_page)) = ''error'' \<and>
    result_innerHTML (page_of (submit_listener v8 network_down repo_page)) =
      ''<strong>Error:</strong> Failed to fetch'' \<and>
    console_errors (page_of (submit_listener v8 network_down repo_page)) =
      [JsError ''TypeError'' ''Failed to fetch'']"
    by simp
  from failures_caught_once [of v8 "reply (text_response 200 ''<html>'')" repo_page] t2 c
  have w2: "is_Normal (submit_listener v8 (reply (text_response 200 ''<html>'')) repo_page) \<and>
    result_className
        (page_of (submit_listener v8 (reply (text_response 200 ''<html>'')) repo_page)) =
      ''error'' \<and>
    result_innerHTML
        (page_of (submit_listener v8 (reply (text_response 200 ''<html>'')) repo_page)) =
      ''<strong>Error:</strong> Unexpected end of JSON input'' \<and>
    console_errors
        (page_of (submit_listener v8 (reply (text_response 200 ''<html>'')) repo_page)) =
      [JsError ''SyntaxError'' ''Unexpected end of JSON input'']"
    by simp
  from failures_caught_once [of v8 "reply (text_response 500 ''internal failure'')" repo_page]
    t3 c
  have w3: "is_Normal
      (submit_listener v8 (reply (text_response 500 ''internal failure'')) repo_page) \<and>
    result_className (page_of
        (submit_listener v8 (reply (text_response 500 ''internal failure'')) repo_page)) =
      ''error'' \<and>
    result_innerHTML (page_of
        (submit_listener v8 (reply (text_response 500 ''internal failure'')) repo_page)) =
      ''<strong>Error:</strong> Server error: 500 internal failure'' \<and>
    console_errors (page_of
        (submit_listener v8 (reply (text_response 500 ''internal failure'')) repo_page)) =
      [JsError ''Error'' ''Server error: 500 internal failure'']"
    by simp
  from t1 t2 t3 w1 w2 w3 show ?thesis by blast
qed

text \<open>
  Claim C5. For a response whose status is outside 200 to 299 and whose body reads as the
  text \<open>text\<close>, the \<^verbatim>\<open>try\<close> block throws an \<^verbatim>\<open>Error\<close> whose message is \<^verbatim>\<open>Server error: \<close>, the
  decimal status (\<open>read_decimal_Number_toString\<close>), a space, and then \<open>text\<close>, or
  \<^verbatim>\<open>Deployment failed.\<close> when \<open>text\<close> is empty. The panel ends with the class \<^verbatim>\<open>error\<close> and shows that message after the
  \<^verbatim>\<open>Error:\<close> prefix.
\<close>

theorem server_error_message:
  assumes "fetch (deploy_request (url_of s) (base_path_of s)) = Fulfilled response"
    and "\<not> ok response"
    and "text_body response = Fulfilled text"
  shows "(\<exists>s1. try_block eng fetch (url_of s) (base_path_of s) (start s) =
            Throw (JsError ''Error''
                     (''Server error: '' @ Number_toString (status response) @ '' '' @
                      (if text = [] then ''Deployment failed.'' else text))) s1) \<and>
         is_Normal (submit_listener eng fetch s) \<and>
         result_className (page_of (submit_listener eng fetch s)) = ''error'' \<and>
         result_innerHTML (page_of (submit_listener eng fetch s)) =
           ''<strong>Error:</strong> Server error: '' @ Number_toString (status response) @
           '' '' @ (if text = [] then ''Deployment failed.'' else text)"
proof -
  let ?msg = "''Server error: '' @ Number_toString (status response) @ '' '' @
              (if text = [] then ''Deployment failed.'' else text)"
  have e: "server_error response text = JsError ''Error'' ?msg"
    by (simp add: server_error_def)
  from server_failure_throws [where fetch = fetch and url = "url_of s" and
      base_path = "base_path_of s" and eng = eng and s = "start s", OF assms] e
  obtain s1 where t: "try_block eng fetch (url_of s) (base_path_of s) (start s) =
                        Throw (JsError ''Error'' ?msg) s1"
    by auto
  from listener_after_Throw [OF t] t show ?thesis by simp
qed

text \<open>Scenario B (status 500, body \<^verbatim>\<open>internal failure\<close>) and scenario C (status 500, empty body).\<close>

theorem server_error_message_witness:
  "reply (text_response 500 ''internal failure'')
     (deploy_request (url_of repo_page) (base_path_of repo_page)) =
     Fulfilled (text_response 500 ''internal failure'') \<and>
   \<not> ok (text_response 500 ''internal failure'') \<and>
   text_body (text_response 500 ''internal failure'') = Fulfilled ''internal failure'' \<and>
   result_className (page_of (submit_listener v8
      (reply (text_response 500 ''internal failure'')) repo_page)) = ''error'' \<and>
   result_innerHTML (page_of (submit_listener v8
      (reply (text_response 500 ''internal failure'')) repo_page)) =
     ''<strong>Error:</strong> Server error: 500 internal failure'' \<and>
   reply (text_response 500 [])
     (deploy_request (url_of repo_page) (base_path_of repo_page)) =
     Fulfilled (text_response 500 []) \<and>
   \<not> ok (text_response 500 []) \<and>
   text_body (text_response 500 []) = Fulfilled [] \<and>
   result_innerHTML (page_of (submit_listener v8 (reply (text_response 500 [])) repo_page)) =
     ''<strong>Error:</strong> Server error: 500 Deployment failed.''"
proof -
  have a: "reply (text_response 500 ''internal failure'')
             (deploy_request (url_of repo_page) (base_path_of repo_page)) =
           Fulfilled (text_response 500 ''internal failure'')"
    by (simp add: reply_def)
  have b: "\<not> ok (text_response 500 ''internal failure'')"
    by (simp add: ok_def text_response_def)
  have c: "text_body (text_response 500 ''internal failure'') = Fulfilled ''internal failure''"
    by (simp add: text_response_def)
  have a': "reply (text_response 500 [])
             (deploy_request (url_of repo_page) (base_path_of repo_page)) =
           Fulfilled (text_response 500 [])"
    by (simp add: reply_def)
  have b': "\<not> ok (text_response 500 [])"
    by (simp add: ok_def text_response_def)
  have c': "text_body (text_response 500 []) = Fulfilled []"
    by (simp add: text_response_def)
  have n: "Number_toString 500 = ''500''" by code_simp
  have s: "status (text_response 500 t) = 500" for t by (simp add: text_response_def)
  from server_error_message [where fetch = "reply (text_response 500 ''internal failure'')"
      and s = repo_page and eng = v8, OF a b c]
    server_error_message [where fetch = "reply (text_response 500 [])"
      and s = repo_page and eng = v8, OF a' b' c']
    a b c a' b' c' n s
  show ?thesis by simp
qed

subsection \<open>Success\<close>

lemma render_success_ok:
  assumes "substitution eng data ''slug'' = Inr slug" "substitution eng data ''url'' = Inr url"
  shows "render_success eng data s =
           Normal () (s\<lparr>result_className := ''success'',
                        result_innerHTML := success_html slug url\<rparr>)"
  using assms by (simp add: render_success_def success_template_def)

lemma try_block_success:
  assumes "fetch (deploy_request url base_path) = Fulfilled response" "ok response"
    "json_body response = Fulfilled data"
  shows "try_block eng fetch url base_path s =
           render_success eng data
             (s\<lparr>fetch_calls := fetch_calls s @ [deploy_request url base_path]\<rparr>)"
  using assms by (simp add: try_block_unfold Let_def)

lemma listener_success:
  assumes "fetch (deploy_request (url_of s) (base_path_of s)) = Fulfilled response"
    and "ok response"
    and "json_body response = Fulfilled data"
    and "substitution eng data ''slug'' = Inr slug"
    and "substitution eng data ''url'' = Inr url"
  shows "is_Normal (submit_listener eng fetch s) \<and>
         result_className (page_of (submit_listener eng fetch s)) = ''success'' \<and>
         result_innerHTML (page_of (submit_listener eng fetch s)) = success_html slug url \<and>
         console_errors (page_of (submit_listener eng fetch s)) = console_errors s"
proof -
  let ?s1 = "(start s)\<lparr>fetch_calls :=
               fetch_calls (start s) @ [deploy_request (url_of s) (base_path_of s)]\<rparr>"
  have "try_block eng fetch (url_of s) (base_path_of s) (start s) =
          Normal () (?s1\<lparr>result_className := ''success'',
                          result_innerHTML := success_html slug url\<rparr>)"
    using try_block_success [where fetch = fetch and url = "url_of s" and
        base_path = "base_path_of s" and eng = eng and s = "start s", OF assms(1-3)]
      render_success_ok [OF assms(4,5)]
    by simp
  from listener_after_Normal [OF this] show ?thesis by (simp add: start_def)
qed

lemma substitution_string:
  "get_property eng data k = Inr (Some (JString v)) \<Longrightarrow> substitution eng data k = Inr v"
  by (simp add: substitution_def)

lemma substitution_missing:
  "get_property eng data k = Inr None \<Longrightarrow> substitution eng data k = Inr ''undefined''"
  by (simp add: substitution_def)

text \<open>The template of lines 34 to 40, written out character by character.\<close>

lemma success_html_markup:
  \<open>success_html slug url =
     [CHR 0x0A] @ replicate 24 (CHR '' '') @ ''<strong>Success!</strong>'' @
     [CHR 0x0A] @ replicate 24 (CHR '' '') @ ''<p>Site ID: <strong>'' @ slug @ ''</strong></p>'' @
     [CHR 0x0A] @ replicate 24 (CHR '' '') @ ''<a href="'' @ url @
       ''" target="_blank" id="result-url">'' @
     [CHR 0x0A] @ replicate 28 (CHR '' '') @ ''Go to Site'' @
     [CHR 0x0A] @ replicate 24 (CHR '' '') @ ''</a>'' @
     [CHR 0x0A] @ replicate 20 (CHR '' '')\<close>
  by (simp add: success_html_def indent_def newline_def)

text \<open>A throw of the template is caught like every other throw of the \<^verbatim>\<open>try\<close> block.\<close>

lemma listener_template_throw:
  assumes "fetch (deploy_request (url_of s) (base_path_of s)) = Fulfilled response"
    and "ok response"
    and "json_body response = Fulfilled data"
    and "success_template eng data = Inl err"
  shows "is_Normal (submit_listener eng fetch s) \<and>
         result_className (page_of (submit_listener eng fetch s)) = ''error'' \<and>
         result_innerHTML (page_of (submit_listener eng fetch s)) =
           ''<strong>Error:</strong> '' @ message err \<and>
         console_errors (page_of (submit_listener eng fetch s)) = console_errors s @ [err]"
proof -
  let ?s1 = "(start s)\<lparr>fetch_calls :=
               fetch_calls (start s) @ [deploy_request (url_of s) (base_path_of s)]\<rparr>"
  have t: "try_block eng fetch (url_of s) (base_path_of s) (start s) =
          Throw err (?s1\<lparr>result_className := ''success''\<rparr>)"
    using try_block_success [where fetch = fetch and url = "url_of s" and
        base_path = "base_path_of s" and eng = eng and s = "start s", OF assms(1-3)] assms(4)
    by (simp add: render_success_def)
  from listener_after_Throw [OF t] try_block_start_console [OF t] show ?thesis by simp
qed

lemma template_throws_slug:
  "substitution eng data ''slug'' = Inl err \<Longrightarrow> success_template eng data = Inl err"
  by (simp add: success_template_def)

lemma template_throws_url:
  "substitution eng data ''slug'' = Inr slug \<Longrightarrow> substitution eng data ''url'' = Inl err \<Longrightarrow>
     success_template eng data = Inl err"
  by (simp add: success_template_def)

lemma substitution_null:
  "substitution eng JNull k = Inl (JsError ''TypeError'' (null_read_message eng k))"
  by (simp add: substitution_def)

text \<open>
  Claim C6, as the code has it. A body that parses as JSON is not enough for the success
  panel. On a status in 200 to 299 whose body parses to \<open>data\<close>: when the substitutions
  \<^verbatim>\<open>${data.slug}\<close> and \<^verbatim>\<open>${data.url}\<close> yield the strings \<open>slug\<close> and \<open>url\<close>, the listener ends
  with the class \<^verbatim>\<open>success\<close> and the panel holds the template of lines 34 to 40, with \<open>slug\<close>
  as the text of \<^verbatim>\<open><p>Site ID: <strong>\<close> and \<open>url\<close> as the \<^verbatim>\<open>href\<close> of the link; when the first
  or the second substitution throws, as the first does on the body \<^verbatim>\<open>null\<close>, the thrown value is
  caught and the panel ends with the class \<^verbatim>\<open>error\<close> and the message of that value.
\<close>

theorem success_render:
  assumes "fetch (deploy_request (url_of s) (base_path_of s)) = Fulfilled response"
    and "ok response"
    and "json_body response = Fulfilled data"
  shows \<open>(substitution eng data ''slug'' = Inr slug \<and> substitution eng data ''url'' = Inr url
            \<longrightarrow>
      is_Normal (submit_listener eng fetch s) \<and>
      result_className (page_of (submit_listener eng fetch s)) = ''success'' \<and>
      result_innerHTML (page_of (submit_listener eng fetch s)) =
        [CHR 0x0A] @ replicate 24 (CHR '' '') @ ''<strong>Success!</strong>'' @
        [CHR 0x0A] @ replicate 24 (CHR '' '') @ ''<p>Site ID: <strong>'' @ slug @ ''</strong></p>'' @
        [CHR 0x0A] @ replicate 24 (CHR '' '') @ ''<a href="'' @ url @
          ''" target="_blank" id="result-url">'' @
        [CHR 0x0A] @ replicate 28 (CHR '' '') @ ''Go to Site'' @
        [CHR 0x0A] @ replicate 24 (CHR '' '') @ ''</a>'' @
        [CHR 0x0A] @ replicate 20 (CHR '' '')) \<and>
     (substitution eng data ''slug'' = Inl err \<longrightarrow>
      is_Normal (submit_listener eng fetch s) \<and>
      result_className (page_of (submit_listener eng fetch s)) = ''error'' \<and>
      result_innerHTML (page_of (submit_listener eng fetch s)) = ''<strong>Error:</strong> '' @ message err) \<and>
     (substitution eng data ''slug'' = Inr slug \<and> substitution eng data ''url'' = Inl err
            \<longrightarrow>
      is_Normal (submit_listener eng fetch s) \<and>
      result_className (page_of (submit_listener eng fetch s)) = ''error'' \<and>
      result_innerHTML (page_of (submit_listener eng fetch s)) = ''<strong>Error:</strong> '' @ message err) \<and>
     (data = JNull \<longrightarrow>
      is_Normal (submit_listener eng fetch s) \<and>
      result_className (page_of (submit_listener eng fetch s)) = ''error'' \<and>
      result_innerHTML (page_of (submit_listener eng fetch s)) = ''<strong>Error:</strong> '' @ null_read_message eng ''slug'')\<close>
    (is "?A \<and> ?B \<and> ?C \<and> ?D")
proof -
  note ok = listener_success [where fetch = fetch and s = s and eng = eng, OF assms]
  note ko = listener_template_throw [where fetch = fetch and s = s and eng = eng, OF assms]
  have A: ?A
  proof
    assume "substitution eng data ''slug'' = Inr slug \<and> substitution eng data ''url'' = Inr url"
    then have "substitution eng data ''slug'' = Inr slug" "substitution eng data ''url'' = Inr url"
      by simp_all
    from ok [OF this] show \<open>is_Normal (submit_listener eng fetch s) \<and>
      result_className (page_of (submit_listener eng fetch s)) = ''success'' \<and>
      result_innerHTML (page_of (submit_listener eng fetch s)) =
        [CHR 0x0A] @ replicate 24 (CHR '' '') @ ''<strong>Success!</strong>'' @
        [CHR 0x0A] @ replicate 24 (CHR '' '') @ ''<p>Site ID: <strong>'' @ slug @ ''</strong></p>'' @
        [CHR 0x0A] @ replicate 24 (CHR '' '') @ ''<a href="'' @ url @
          ''" target="_blank" id="result-url">'' @
        [CHR 0x0A] @ replicate 28 (CHR '' '') @ ''Go to Site'' @
        [CHR 0x0A] @ replicate 24 (CHR '' '') @ ''</a>'' @
        [CHR 0x0A] @ replicate 20 (CHR '' '')\<close>
      by (simp add: success_html_markup)
  qed
  have B: ?B
  proof
    assume "substitution eng data ''slug'' = Inl err"
    from ko [OF template_throws_slug [OF this]]
    show \<open>is_Normal (submit_listener eng fetch s) \<and>
      result_className (page_of (submit_listener eng fetch s)) = ''error'' \<and>
      result_innerHTML (page_of (submit_listener eng fetch s)) = ''<strong>Error:</strong> '' @ message err\<close>
      by simp
  qed
  have C: ?C
  proof
    assume "substitution eng data ''slug'' = Inr slug \<and> substitution eng data ''url'' = Inl err"
    then have "substitution eng data ''slug'' = Inr slug" "substitution eng data ''url'' = Inl err"
      by simp_all
    from ko [OF template_throws_url [OF this]]
    show \<open>is_Normal (submit_listener eng fetch s) \<and>
      result_className (page_of (submit_listener eng fetch s)) = ''error'' \<and>
      result_innerHTML (page_of (submit_listener eng fetch s)) = ''<strong>Error:</strong> '' @ message err\<close>
      by simp
  qed
  have D: ?D
  proof
    assume "data = JNull"
    then have "substitution eng data ''slug'' =
                 Inl (JsError ''TypeError'' (null_read_message eng ''slug''))"
      by (simp add: substitution_null)
    from ko [OF template_throws_slug [OF this]]
    show \<open>is_Normal (submit_listener eng fetch s) \<and>
      result_className (page_of (submit_listener eng fetch s)) = ''error'' \<and>
      result_innerHTML (page_of (submit_listener eng fetch s)) = ''<strong>Error:</strong> '' @ null_read_message eng ''slug''\<close>
      by simp
  qed
  from A B C D show ?thesis by (intro conjI)
qed

text \<open>
  Scenario A (the slug \<^verbatim>\<open>abc123\<close> and the address \<^verbatim>\<open>https://abc123.example.com\<close>), a \<^verbatim>\<open>slug\<close> that
  has no string conversion, a \<^verbatim>\<open>url\<close> that has none, and the body \<^verbatim>\<open>null\<close>.
\<close>

theorem success_render_witness:
  \<open>(reply site_response (deploy_request (url_of repo_page) (base_path_of repo_page)) =
      Fulfilled site_response \<and>
    ok site_response \<and>
    json_body site_response = Fulfilled (JObject [(''slug'', JString ''abc123''), (''url'', JString ''https://abc123.example.com'')]) \<and>
    substitution v8 (JObject [(''slug'', JString ''abc123''), (''url'', JString ''https://abc123.example.com'')]) ''slug'' = Inr ''abc123'' \<and>
    substitution v8 (JObject [(''slug'', JString ''abc123''), (''url'', JString ''https://abc123.example.com'')]) ''url'' = Inr ''https://abc123.example.com'' \<and>
    is_Normal (submit_listener v8 (reply site_response) repo_page) \<and>
    result_className (page_of (submit_listener v8 (reply site_response) repo_page)) = ''success'' \<and>
    result_innerHTML (page_of (submit_listener v8 (reply site_response) repo_page)) =
      [CHR 0x0A] @ replicate 24 (CHR '' '') @ ''<strong>Success!</strong>'' @
      [CHR 0x0A] @ replicate 24 (CHR '' '') @ ''<p>Site ID: <strong>'' @ ''abc123'' @ ''</strong></p>'' @
      [CHR 0x0A] @ replicate 24 (CHR '' '') @ ''<a href="'' @ ''https://abc123.example.com'' @
        ''" target="_blank" id="result-url">'' @
      [CHR 0x0A] @ replicate 28 (CHR '' '') @ ''Go to Site'' @
      [CHR 0x0A] @ replicate 24 (CHR '' '') @ ''</a>'' @
      [CHR 0x0A] @ replicate 20 (CHR '' '')) \<and>
   (reply unprintable_slug_response (deploy_request (url_of repo_page) (base_path_of repo_page)) =
      Fulfilled unprintable_slug_response \<and>
    ok unprintable_slug_response \<and>
    json_body unprintable_slug_response = Fulfilled (JObject [(''slug'', JObject [(''toString'', JNumber ''1'')]),
       (''url'', JString ''https://abc123.example.com'')]) \<and>
    substitution v8 (JObject [(''slug'', JObject [(''toString'', JNumber ''1'')]),
       (''url'', JString ''https://abc123.example.com'')]) ''slug'' =
      Inl (JsError ''TypeError'' ''Cannot convert object to primitive value'') \<and>
    is_Normal (submit_listener v8 (reply unprintable_slug_response) repo_page) \<and>
    result_className (page_of (submit_listener v8 (reply unprintable_slug_response) repo_page)) = ''error'' \<and>
    result_innerHTML (page_of (submit_listener v8 (reply unprintable_slug_response) repo_page)) = ''<strong>Error:</strong> '' @ ''Cannot convert object to primitive value'') \<and>
   (reply unprintable_url_response (deploy_request (url_of repo_page) (base_path_of repo_page)) =
      Fulfilled unprintable_url_response \<and>
    ok unprintable_url_response \<and>
    json_body unprintable_url_response = Fulfilled (JObject [(''url'', JObject [(''toString'', JNumber ''1'')])]) \<and>
    substitution v8 (JObject [(''url'', JObject [(''toString'', JNumber ''1'')])]) ''slug'' = Inr ''undefined'' \<and>
    substitution v8 (JObject [(''url'', JObject [(''toString'', JNumber ''1'')])]) ''url'' =
      Inl (JsError ''TypeError'' ''Cannot convert object to primitive value'') \<and>
    is_Normal (submit_listener v8 (reply unprintable_url_response) repo_page) \<and>
    result_className (page_of (submit_listener v8 (reply unprintable_url_response) repo_page)) = ''error'' \<and>
    result_innerHTML (page_of (submit_listener v8 (reply unprintable_url_response) repo_page)) = ''<strong>Error:</strong> '' @ ''Cannot convert object to primitive value'') \<and>
   (reply null_response (deploy_request (url_of repo_page) (base_path_of repo_page)) =
      Fulfilled null_response \<and>
    ok null_response \<and>
    json_body null_response = Fulfilled (JNull) \<and>
    is_Normal (submit_listener v8 (reply null_response) repo_page) \<and>
    result_className (page_of (submit_listener v8 (reply null_response) repo_page)) = ''error'' \<and>
    result_innerHTML (page_of (submit_listener v8 (reply null_response) repo_page)) = ''<strong>Error:</strong> '' @ null_read_message v8 ''slug'')\<close>
proof -
  have page0: "console_errors repo_page = []"
    by (simp add: repo_page_def form_page_def)
  have a1: \<open>reply site_response (deploy_request (url_of repo_page) (base_path_of repo_page)) =
      Fulfilled site_response\<close>
    by (simp add: reply_def)
  have a2: \<open>ok site_response\<close>
    by (simp add: ok_def site_response_def json_response_def)
  have a3: \<open>json_body site_response = Fulfilled (JObject [(''slug'', JString ''abc123''), (''url'', JString ''https://abc123.example.com'')])\<close>
    by (simp add: site_response_def json_response_def unprintable_def)
  have a4: \<open>substitution v8 (JObject [(''slug'', JString ''abc123''), (''url'', JString ''https://abc123.example.com'')]) ''slug'' = Inr ''abc123''\<close>
    by (simp add: substitution_def v8_def)
  have a5: \<open>substitution v8 (JObject [(''slug'', JString ''abc123''), (''url'', JString ''https://abc123.example.com'')]) ''url'' = Inr ''https://abc123.example.com''\<close>
    by (simp add: substitution_def v8_def)
  from success_render [where fetch = "reply site_response" and s = repo_page and eng = v8 and data = \<open>JObject [(''slug'', JString ''abc123''), (''url'', JString ''https://abc123.example.com'')]\<close> and slug = \<open>''abc123''\<close> and url = \<open>''https://abc123.example.com''\<close>,
      OF a1 a2 a3] a4 a5 page0
  have a: \<open>is_Normal (submit_listener v8 (reply site_response) repo_page) \<and>
    result_className (page_of (submit_listener v8 (reply site_response) repo_page)) = ''success'' \<and>
    result_innerHTML (page_of (submit_listener v8 (reply site_response) repo_page)) =
      [CHR 0x0A] @ replicate 24 (CHR '' '') @ ''<strong>Success!</strong>'' @
      [CHR 0x0A] @ replicate 24 (CHR '' '') @ ''<p>Site ID: <strong>'' @ ''abc123'' @ ''</strong></p>'' @
      [CHR 0x0A] @ replicate 24 (CHR '' '') @ ''<a href="'' @ ''https://abc123.example.com'' @
        ''" target="_blank" id="result-url">'' @
      [CHR 0x0A] @ replicate 28 (CHR '' '') @ ''Go to Site'' @
      [CHR 0x0A] @ replicate 24 (CHR '' '') @ ''</a>'' @
      [CHR 0x0A] @ replicate 20 (CHR '' '')\<close>
    by (simp add: v8_def)
  have b1: \<open>reply unprintable_slug_response (deploy_request (url_of repo_page) (base_path_of repo_page)) =
      Fulfilled unprintable_slug_response\<close>
    by (simp add: reply_def)
  have b2: \<open>ok unprintable_slug_response\<close>
    by (simp add: ok_def unprintable_slug_response_def json_response_def)
  have b3: \<open>json_body unprintable_slug_response = Fulfilled (JObject [(''slug'', JObject [(''toString'', JNumber ''1'')]),
       (''url'', JString ''https://abc123.example.com'')])\<close>
    by (simp add: unprintable_slug_response_def json_response_def unprintable_def)
  have b4: \<open>substitution v8 (JObject [(''slug'', JObject [(''toString'', JNumber ''1'')]),
       (''url'', JString ''https://abc123.example.com'')]) ''slug'' =
      Inl (JsError ''TypeError'' ''Cannot convert object to primitive value'')\<close>
    by (simp add: substitution_def v8_def)
  from success_render [where fetch = "reply unprintable_slug_response" and s = repo_page and eng = v8 and data = \<open>JObject [(''slug'', JObject [(''toString'', JNumber ''1'')]),
       (''url'', JString ''https://abc123.example.com'')]\<close> and err = \<open>JsError ''TypeError'' ''Cannot convert object to primitive value''\<close>,
      OF b1 b2 b3] b4 page0
  have b: \<open>is_Normal (submit_listener v8 (reply unprintable_slug_response) repo_page) \<and>
    result_className (page_of (submit_listener v8 (reply unprintable_slug_response) repo_page)) = ''error'' \<and>
    result_innerHTML (page_of (submit_listener v8 (reply unprintable_slug_response) repo_page)) = ''<strong>Error:</strong> '' @ ''Cannot convert object to primitive value''\<close>
    by (simp add: v8_def)
  have c1: \<open>reply unprintable_url_response (deploy_request (url_of repo_page) (base_path_of repo_page)) =
      Fulfilled unprintable_url_response\<close>
    by (simp add: reply_def)
  have c2: \<open>ok unprintable_url_response\<close>
    by (simp add: ok_def unprintable_url_response_def json_response_def)
  have c3: \<open>json_body unprintable_url_response = Fulfilled (JObject [(''url'', JObject [(''toString'', JNumber ''1'')])])\<close>
    by (simp add: unprintable_url_response_def json_response_def unprintable_def)
  have c4: \<open>substitution v8 (JObject [(''url'', JObject [(''toString'', JNumber ''1'')])]) ''slug'' = Inr ''undefined''\<close>
    by (simp add: substitution_def v8_def)
  have c5: \<open>substitution v8 (JObject [(''url'', JObject [(''toString'', JNumber ''1'')])]) ''url'' =
      Inl (JsError ''TypeError'' ''Cannot convert object to primitive value'')\<close>
    by (simp add: substitution_def v8_def)
  from success_render [where fetch = "reply unprintable_url_response" and s = repo_page and eng = v8 and data = \<open>JObject [(''url'', JObject [(''toString'', JNumber ''1'')])]\<close> and slug = \<open>''undefined''\<close> and err = \<open>JsError ''TypeError'' ''Cannot convert object to primitive value''\<close>,
      OF c1 c2 c3] c4 c5 page0
  have c: \<open>is_Normal (submit_listener v8 (reply unprintable_url_response) repo_page) \<and>
    result_className (page_of (submit_listener v8 (reply unprintable_url_response) repo_page)) = ''error'' \<and>
    result_innerHTML (page_of (submit_listener v8 (reply unprintable_url_response) repo_page)) = ''<strong>Error:</strong> '' @ ''Cannot convert object to primitive value''\<close>
    by (simp add: v8_def)
  have d1: \<open>reply null_response (deploy_request (url_of repo_page) (base_path_of repo_page)) =
      Fulfilled null_response\<close>
    by (simp add: reply_def)
  have d2: \<open>ok null_response\<close>
    by (simp add: ok_def null_response_def json_response_def)
  have d3: \<open>json_body null_response = Fulfilled (JNull)\<close>
    by (simp add: null_response_def json_response_def unprintable_def)
  from success_render [where fetch = "reply null_response" and s = repo_page and eng = v8 and data = \<open>JNull\<close>,
      OF d1 d2 d3]  page0
  have d: \<open>is_Normal (submit_listener v8 (reply null_response) repo_page) \<and>
    result_className (page_of (submit_listener v8 (reply null_response) repo_page)) = ''error'' \<and>
    result_innerHTML (page_of (submit_listener v8 (reply null_response) repo_page)) = ''<strong>Error:</strong> '' @ null_read_message v8 ''slug''\<close>
    by (simp add: v8_def)
  from a1 a2 a3 a4 a5 a b1 b2 b3 b4 b c1 c2 c3 c4 c5 c d1 d2 d3 d
  show ?thesis by blast
qed

text \<open>
  The claim as stated fails on a status 200 whose body is the JSON text \<^verbatim>\<open>null\<close>, and on one
  whose \<^verbatim>\<open>slug\<close> is the object \<^verbatim>\<open>{"toString": 1}\<close>: both bodies parse, and both runs end with
  the class \<^verbatim>\<open>error\<close> and the message of a \<^verbatim>\<open>TypeError\<close>.
\<close>

theorem success_render_counterexample:
  "ok null_response \<and>
   json_body null_response = Fulfilled JNull \<and>
   is_Normal (submit_listener v8 (reply null_response) repo_page) \<and>
   result_className (page_of (submit_listener v8 (reply null_response) repo_page)) =
     ''error'' \<and>
   result_innerHTML (page_of (submit_listener v8 (reply null_response) repo_page)) =
     ''<strong>Error:</strong> '' @ null_read_message v8 ''slug'' \<and>
   ok unprintable_slug_response \<and>
   json_body unprintable_slug_response =
     Fulfilled (JObject [(''slug'', JObject [(''toString'', JNumber ''1'')]),
                         (''url'', JString ''https://abc123.example.com'')]) \<and>
   is_Normal (submit_listener v8 (reply unprintable_slug_response) repo_page) \<and>
   result_className (page_of (submit_listener v8 (reply unprintable_slug_response) repo_page)) =
     ''error'' \<and>
   result_innerHTML (page_of (submit_listener v8 (reply unprintable_slug_response) repo_page)) =
     ''<strong>Error:</strong> Cannot convert object to primitive value''"
  by (simp add: run_simps)

text \<open>
  Claim C9, as the code has it. The listener never checks the shape of the parsed body. On
  a status in 200 to 299 whose body parses to \<open>data\<close>: when \<open>data\<close> has no \<^verbatim>\<open>slug\<close> (the
  property read gives \<^verbatim>\<open>undefined\<close>) and the \<^verbatim>\<open>url\<close> substitution yields a string, the listener
  ends normally, logs nothing, sets the class \<^verbatim>\<open>success\<close> and fills the template with the text
  \<^verbatim>\<open>undefined\<close> in the place of the slug; likewise with the two names exchanged. When the
  substitution of the member that is present throws, or the body is \<^verbatim>\<open>null\<close>, the thrown value
  is logged and the panel ends with the class \<^verbatim>\<open>error\<close> and the message of that value.
\<close>

theorem missing_fields_render_undefined:
  assumes "fetch (deploy_request (url_of s) (base_path_of s)) = Fulfilled response"
    and "ok response"
    and "json_body response = Fulfilled data"
  shows \<open>(get_property eng data ''slug'' = Inr None \<and> substitution eng data ''url'' = Inr url
            \<longrightarrow>
      is_Normal (submit_listener eng fetch s) \<and>
      console_errors (page_of (submit_listener eng fetch s)) = console_errors s \<and>
      result_className (page_of (submit_listener eng fetch s)) = ''success'' \<and>
      result_innerHTML (page_of (submit_listener eng fetch s)) =
        [CHR 0x0A] @ replicate 24 (CHR '' '') @ ''<strong>Success!</strong>'' @
        [CHR 0x0A] @ replicate 24 (CHR '' '') @ ''<p>Site ID: <strong>'' @ ''undefined'' @ ''</strong></p>'' @
        [CHR 0x0A] @ replicate 24 (CHR '' '') @ ''<a href="'' @ url @
          ''" target="_blank" id="result-url">'' @
        [CHR 0x0A] @ replicate 28 (CHR '' '') @ ''Go to Site'' @
        [CHR 0x0A] @ replicate 24 (CHR '' '') @ ''</a>'' @
        [CHR 0x0A] @ replicate 20 (CHR '' '')) \<and>
     (get_property eng data ''url'' = Inr None \<and> substitution eng data ''slug'' = Inr slug
            \<longrightarrow>
      is_Normal (submit_listener eng fetch s) \<and>
      console_errors (page_of (submit_listener eng fetch s)) = console_errors s \<and>
      result_className (page_of (submit_listener eng fetch s)) = ''success'' \<and>
      result_innerHTML (page_of (submit_listener eng fetch s)) =
        [CHR 0x0A] @ replicate 24 (CHR '' '') @ ''<strong>Success!</strong>'' @
        [CHR 0x0A] @ replicate 24 (CHR '' '') @ ''<p>Site ID: <strong>'' @ slug @ ''</strong></p>'' @
        [CHR 0x0A] @ replicate 24 (CHR '' '') @ ''<a href="'' @ ''undefined'' @
          ''" target="_blank" id="result-url">'' @
        [CHR 0x0A] @ replicate 28 (CHR '' '') @ ''Go to Site'' @
        [CHR 0x0A] @ replicate 24 (CHR '' '') @ ''</a>'' @
        [CHR 0x0A] @ replicate 20 (CHR '' '')) \<and>
     (get_property eng data ''slug'' = Inr None \<and> substitution eng data ''url'' = Inl err
            \<longrightarrow>
      is_Normal (submit_listener eng fetch s) \<and>
      console_errors (page_of (submit_listener eng fetch s)) = console_errors s @ [err] \<and>
      result_className (page_of (submit_listener eng fetch s)) = ''error'' \<and>
      result_innerHTML (page_of (submit_listener eng fetch s)) =
        ''<strong>Error:</strong> '' @ message (err)) \<and>
     (get_property eng data ''url'' = Inr None \<and> substitution eng data ''slug'' = Inl err
            \<longrightarrow>
      is_Normal (submit_listener eng fetch s) \<and>
      console_errors (page_of (submit_listener eng fetch s)) = console_errors s @ [err] \<and>
      result_className (page_of (submit_listener eng fetch s)) = ''error'' \<and>
      result_innerHTML (page_of (submit_listener eng fetch s)) =
        ''<strong>Error:</strong> '' @ message (err)) \<and>
     (data = JNull \<longrightarrow>
      is_Normal (submit_listener eng fetch s) \<and>
      console_errors (page_of (submit_listener eng fetch s)) = console_errors s @ [JsError ''TypeError'' (null_read_message eng ''slug'')] \<and>
      result_className (page_of (submit_listener eng fetch s)) = ''error'' \<and>
      result_innerHTML (page_of (submit_listener eng fetch s)) =
        ''<strong>Error:</strong> '' @ message (JsError ''TypeError'' (null_read_message eng ''slug'')))\<close>
    (is "?A \<and> ?B \<and> ?C \<and> ?D \<and> ?E")
proof -
  note ok = listener_success [where fetch = fetch and s = s and eng = eng, OF assms]
  note ko = listener_template_throw [where fetch = fetch and s = s and eng = eng, OF assms]
  have A: ?A
  proof
    assume "get_property eng data ''slug'' = Inr None \<and> substitution eng data ''url'' = Inr url"
    then have "substitution eng data ''slug'' = Inr ''undefined''"
      and "substitution eng data ''url'' = Inr url"
      by (simp_all add: substitution_missing)
    from ok [OF this] show \<open>is_Normal (submit_listener eng fetch s) \<and>
      console_errors (page_of (submit_listener eng fetch s)) = console_errors s \<and>
      result_className (page_of (submit_listener eng fetch s)) = ''success'' \<and>
      result_innerHTML (page_of (submit_listener eng fetch s)) =
        [CHR 0x0A] @ replicate 24 (CHR '' '') @ ''<strong>Success!</strong>'' @
        [CHR 0x0A] @ replicate 24 (CHR '' '') @ ''<p>Site ID: <strong>'' @ ''undefined'' @ ''</strong></p>'' @
        [CHR 0x0A] @ replicate 24 (CHR '' '') @ ''<a href="'' @ url @
          ''" target="_blank" id="result-url">'' @
        [CHR 0x0A] @ replicate 28 (CHR '' '') @ ''Go to Site'' @
        [CHR 0x0A] @ replicate 24 (CHR '' '') @ ''</a>'' @
        [CHR 0x0A] @ replicate 20 (CHR '' '')\<close>
      by (simp add: success_html_markup)
  qed
  have B: ?B
  proof
    assume "get_property eng data ''url'' = Inr None \<and> substitution eng data ''slug'' = Inr slug"
    then have "substitution eng data ''slug'' = Inr slug"
      and "substitution eng data ''url'' = Inr ''undefined''"
      by (simp_all add: substitution_missing)
    from ok [OF this] show \<open>is_Normal (submit_listener eng fetch s) \<and>
      console_errors (page_of (submit_listener eng fetch s)) = console_errors s \<and>
      result_className (page_of (submit_listener eng fetch s)) = ''success'' \<and>
      result_innerHTML (page_of (submit_listener eng fetch s)) =
        [CHR 0x0A] @ replicate 24 (CHR '' '') @ ''<strong>Success!</strong>'' @
        [CHR 0x0A] @ replicate 24 (CHR '' '') @ ''<p>Site ID: <strong>'' @ slug @ ''</strong></p>'' @
        [CHR 0x0A] @ replicate 24 (CHR '' '') @ ''<a href="'' @ ''undefined'' @
          ''" target="_blank" id="result-url">'' @
        [CHR 0x0A] @ replicate 28 (CHR '' '') @ ''Go to Site'' @
        [CHR 0x0A] @ replicate 24 (CHR '' '') @ ''</a>'' @
        [CHR 0x0A] @ replicate 20 (CHR '' '')\<close>
      by (simp add: success_html_markup)
  qed
  have C: ?C
  proof
    assume "get_property eng data ''slug'' = Inr None \<and> substitution eng data ''url'' = Inl err"
    then have "substitution eng data ''slug'' = Inr ''undefined''"
      and "substitution eng data ''url'' = Inl err"
      by (simp_all add: substitution_missing)
    from ko [OF template_throws_url [OF this]] show \<open>is_Normal (submit_listener eng fetch s) \<and>
      console_errors (page_of (submit_listener eng fetch s)) = console_errors s @ [err] \<and>
      result_className (page_of (submit_listener eng fetch s)) = ''error'' \<and>
      result_innerHTML (page_of (submit_listener eng fetch s)) =
        ''<strong>Error:</strong> '' @ message (err)\<close>
      by simp
  qed
  have D: ?D
  proof
    assume "get_property eng data ''url'' = Inr None \<and> substitution eng data ''slug'' = Inl err"
    then have "substitution eng data ''slug'' = Inl err" by simp
    from ko [OF template_throws_slug [OF this]] show \<open>is_Normal (submit_listener eng fetch s) \<and>
      console_errors (page_of (submit_listener eng fetch s)) = console_errors s @ [err] \<and>
      result_className (page_of (submit_listener eng fetch s)) = ''error'' \<and>
      result_innerHTML (page_of (submit_listener eng fetch s)) =
        ''<strong>Error:</strong> '' @ message (err)\<close>
      by simp
  qed
  have E: ?E
  proof
    assume "data = JNull"
    then have "substitution eng data ''slug'' =
                 Inl (JsError ''TypeError'' (null_read_message eng ''slug''))"
      by (simp add: substitution_null)
    from ko [OF template_throws_slug [OF this]] show \<open>is_Normal (submit_listener eng fetch s) \<and>
      console_errors (page_of (submit_listener eng fetch s)) = console_errors s @ [JsError ''TypeError'' (null_read_message eng ''slug'')] \<and>
      result_className (page_of (submit_listener eng fetch s)) = ''error'' \<and>
      result_innerHTML (page_of (submit_listener eng fetch s)) =
        ''<strong>Error:</strong> '' @ message (JsError ''TypeError'' (null_read_message eng ''slug''))\<close>
      by simp
  qed
  from A B C D E show ?thesis by (intro conjI)
qed

text \<open>
  A body with a \<^verbatim>\<open>url\<close> and no \<^verbatim>\<open>slug\<close>, one with a \<^verbatim>\<open>slug\<close> and no \<^verbatim>\<open>url\<close>, the same two with
  a member that has no string conversion, and the body \<^verbatim>\<open>null\<close>.
\<close>

theorem missing_fields_render_undefined_witness:
  \<open>(reply url_only_response (deploy_request (url_of repo_page) (base_path_of repo_page)) =
      Fulfilled url_only_response \<and>
    ok url_only_response \<and>
    json_body url_only_response = Fulfilled (JObject [(''url'', JString ''https://abc123.example.com'')]) \<and>
    get_property v8 (JObject [(''url'', JString ''https://abc123.example.com'')]) ''slug'' = Inr None \<and>
    substitution v8 (JObject [(''url'', JString ''https://abc123.example.com'')]) ''url'' =
      Inr ''https://abc123.example.com'' \<and>
    is_Normal (submit_listener v8 (reply url_only_response) repo_page) \<and>
    console_errors (page_of (submit_listener v8 (reply url_only_response) repo_page)) = [] \<and>
    result_className (page_of (submit_listener v8 (reply url_only_response) repo_page)) = ''success'' \<and>
    result_innerHTML (page_of (submit_listener v8 (reply url_only_response) repo_page)) =
      [CHR 0x0A] @ replicate 24 (CHR '' '') @ ''<strong>Success!</strong>'' @
      [CHR 0x0A] @ replicate 24 (CHR '' '') @ ''<p>Site ID: <strong>'' @ ''undefined'' @ ''</strong></p>'' @
      [CHR 0x0A] @ replicate 24 (CHR '' '') @ ''<a href="'' @ ''https://abc123.example.com'' @
        ''" target="_blank" id="result-url">'' @
      [CHR 0x0A] @ replicate 28 (CHR '' '') @ ''Go to Site'' @
      [CHR 0x0A] @ replicate 24 (CHR '' '') @ ''</a>'' @
      [CHR 0x0A] @ replicate 20 (CHR '' '')) \<and>
   (reply slug_only_response (deploy_request (url_of repo_page) (base_path_of repo_page)) =
      Fulfilled slug_only_response \<and>
    ok slug_only_response \<and>
    json_body slug_only_response = Fulfilled (JObject [(''slug'', JString ''abc123'')]) \<and>
    get_property v8 (JObject [(''slug'', JString ''abc123'')]) ''url'' = Inr None \<and>
    substitution v8 (JObject [(''slug'', JString ''abc123'')]) ''slug'' = Inr ''abc123'' \<and>
    is_Normal (submit_listener v8 (reply slug_only_response) repo_page) \<and>
    console_errors (page_of (submit_listener v8 (reply slug_only_response) repo_page)) = [] \<and>
    result_className (page_of (submit_listener v8 (reply slug_only_response) repo_page)) = ''success'' \<and>
    result_innerHTML (page_of (submit_listener v8 (reply slug_only_response) repo_page)) =
      [CHR 0x0A] @ replicate 24 (CHR '' '') @ ''<strong>Success!</strong>'' @
      [CHR 0x0A] @ replicate 24 (CHR '' '') @ ''<p>Site ID: <strong>'' @ ''abc123'' @ ''</strong></p>'' @
      [CHR 0x0A] @ replicate 24 (CHR '' '') @ ''<a href="'' @ ''undefined'' @
        ''" target="_blank" id="result-url">'' @
      [CHR 0x0A] @ replicate 28 (CHR '' '') @ ''Go to Site'' @
      [CHR 0x0A] @ replicate 24 (CHR '' '') @ ''</a>'' @
      [CHR 0x0A] @ replicate 20 (CHR '' '')) \<and>
   (reply unprintable_url_response (deploy_request (url_of repo_page) (base_path_of repo_page)) =
      Fulfilled unprintable_url_response \<and>
    ok unprintable_url_response \<and>
    json_body unprintable_url_response = Fulfilled (JObject [(''url'', JObject [(''toString'', JNumber ''1'')])]) \<and>
    get_property v8 (JObject [(''url'', JObject [(''toString'', JNumber ''1'')])]) ''slug'' = Inr None \<and>
    substitution v8 (JObject [(''url'', JObject [(''toString'', JNumber ''1'')])]) ''url'' =
      Inl (JsError ''TypeError'' ''Cannot convert object to primitive value'') \<and>
    is_Normal (submit_listener v8 (reply unprintable_url_response) repo_page) \<and>
    console_errors (page_of (submit_listener v8 (reply unprintable_url_response) repo_page)) = [JsError ''TypeError'' (''Cannot convert object to primitive value'')] \<and>
    result_className (page_of (submit_listener v8 (reply unprintable_url_response) repo_page)) = ''error'' \<and>
    result_innerHTML (page_of (submit_listener v8 (reply unprintable_url_response) repo_page)) = ''<strong>Error:</strong> '' @ ''Cannot convert object to primitive value'') \<and>
   (reply unprintable_slug_only_response (deploy_request (url_of repo_page) (base_path_of repo_page)) =
      Fulfilled unprintable_slug_only_response \<and>
    ok unprintable_slug_only_response \<and>
    json_body unprintable_slug_only_response = Fulfilled (JObject [(''slug'', JObject [(''toString'', JNumber ''1'')])]) \<and>
    get_property v8 (JObject [(''slug'', JObject [(''toString'', JNumber ''1'')])]) ''url'' = Inr None \<and>
    substitution v8 (JObject [(''slug'', JObject [(''toString'', JNumber ''1'')])]) ''slug'' =
      Inl (JsError ''TypeError'' ''Cannot convert object to primitive value'') \<and>
    is_Normal (submit_listener v8 (reply unprintable_slug_only_response) repo_page) \<and>
    console_errors (page_of (submit_listener v8 (reply unprintable_slug_only_response) repo_page)) = [JsError ''TypeError'' (''Cannot convert object to primitive value'')] \<and>
    result_className (page_of (submit_listener v8 (reply unprintable_slug_only_response) repo_page)) = ''error'' \<and>
    result_innerHTML (page_of (submit_listener v8 (reply unprintable_slug_only_response) repo_page)) = ''<strong>Error:</strong> '' @ ''Cannot convert object to primitive value'') \<and>
   (reply null_response (deploy_request (url_of repo_page) (base_path_of repo_page)) =
      Fulfilled null_response \<and>
    ok null_response \<and>
    json_body null_response = Fulfilled (JNull) \<and>
    is_Normal (submit_listener v8 (reply null_response) repo_page) \<and>
    console_errors (page_of (submit_listener v8 (reply null_response) repo_page)) = [JsError ''TypeError'' (null_read_message v8 ''slug'')] \<and>
    result_className (page_of (submit_listener v8 (reply null_response) repo_page)) = ''error'' \<and>
    result_innerHTML (page_of (submit_listener v8 (reply null_response) repo_page)) = ''<strong>Error:</strong> '' @ null_read_message v8 ''slug'')\<close>
proof -
  have page0: "console_errors repo_page = []"
    by (simp add: repo_page_def form_page_def)
  have a1: \<open>reply url_only_response (deploy_request (url_of repo_page) (base_path_of repo_page)) =
      Fulfilled url_only_response\<close>
    by (simp add: reply_def)
  have a2: \<open>ok url_only_response\<close>
    by (simp add: ok_def url_only_response_def json_response_def)
  have a3: \<open>json_body url_only_response = Fulfilled (JObject [(''url'', JString ''https://abc123.example.com'')])\<close>
    by (simp add: url_only_response_def json_response_def unprintable_def)
  have a4: \<open>get_property v8 (JObject [(''url'', JString ''https://abc123.example.com'')]) ''slug'' = Inr None\<close>
    by (simp add: substitution_def v8_def)
  have a5: \<open>substitution v8 (JObject [(''url'', JString ''https://abc123.example.com'')]) ''url'' =
      Inr ''https://abc123.example.com''\<close>
    by (simp add: substitution_def v8_def)
  from missing_fields_render_undefined [where fetch = "reply url_only_response" and s = repo_page and eng = v8 and data = \<open>JObject [(''url'', JString ''https://abc123.example.com'')]\<close> and url = \<open>''https://abc123.example.com''\<close>,
      OF a1 a2 a3] a4 a5 page0
  have a: \<open>is_Normal (submit_listener v8 (reply url_only_response) repo_page) \<and>
    console_errors (page_of (submit_listener v8 (reply url_only_response) repo_page)) = [] \<and>
    result_className (page_of (submit_listener v8 (reply url_only_response) repo_page)) = ''success'' \<and>
    result_innerHTML (page_of (submit_listener v8 (reply url_only_response) repo_page)) =
      [CHR 0x0A] @ replicate 24 (CHR '' '') @ ''<strong>Success!</strong>'' @
      [CHR 0x0A] @ replicate 24 (CHR '' '') @ ''<p>Site ID: <strong>'' @ ''undefined'' @ ''</strong></p>'' @
      [CHR 0x0A] @ replicate 24 (CHR '' '') @ ''<a href="'' @ ''https://abc123.example.com'' @
        ''" target="_blank" id="result-url">'' @
      [CHR 0x0A] @ replicate 28 (CHR '' '') @ ''Go to Site'' @
      [CHR 0x0A] @ replicate 24 (CHR '' '') @ ''</a>'' @
      [CHR 0x0A] @ replicate 20 (CHR '' '')\<close>
    by (simp add: v8_def)
  have b1: \<open>reply slug_only_response (deploy_request (url_of repo_page) (base_path_of repo_page)) =
      Fulfilled slug_only_response\<close>
    by (simp add: reply_def)
  have b2: \<open>ok slug_only_response\<close>
    by (simp add: ok_def slug_only_response_def json_response_def)
  have b3: \<open>json_body slug_only_response = Fulfilled (JObject [(''slug'', JString ''abc123'')])\<close>
    by (simp add: slug_only_response_def json_response_def unprintable_def)
  have b4: \<open>get_property v8 (JObject [(''slug'', JString ''abc123'')]) ''url'' = Inr None\<close>
    by (simp add: substitution_def v8_def)
  have b5: \<open>substitution v8 (JObject [(''slug'', JString ''abc123'')]) ''slug'' = Inr ''abc123''\<close>
    by (simp add: substitution_def v8_def)
  from missing_fields_render_undefined [where fetch = "reply slug_only_response" and s = repo_page and eng = v8 and data = \<open>JObject [(''slug'', JString ''abc123'')]\<close> and slug = \<open>''abc123''\<close>,
      OF b1 b2 b3] b4 b5 page0
  have b: \<open>is_Normal (submit_listener v8 (reply slug_only_response) repo_page) \<and>
    console_errors (page_of (submit_listener v8 (reply slug_only_response) repo_page)) = [] \<and>
    result_className (page_of (submit_listener v8 (reply slug_only_response) repo_page)) = ''success'' \<and>
    result_innerHTML (page_of (submit_listener v8 (reply slug_only_response) repo_page)) =
      [CHR 0x0A] @ replicate 24 (CHR '' '') @ ''<strong>Success!</strong>'' @
      [CHR 0x0A] @ replicate 24 (CHR '' '') @ ''<p>Site ID: <strong>'' @ ''abc123'' @ ''</strong></p>'' @
      [CHR 0x0A] @ replicate 24 (CHR '' '') @ ''<a href="'' @ ''undefined'' @
        ''" target="_blank" id="result-url">'' @
      [CHR 0x0A] @ replicate 28 (CHR '' '') @ ''Go to Site'' @
      [CHR 0x0A] @ replicate 24 (CHR '' '') @ ''</a>'' @
      [CHR 0x0A] @ replicate 20 (CHR '' '')\<close>
    by (simp add: v8_def)
  have c1: \<open>reply unprintable_url_response (deploy_request (url_of repo_page) (base_path_of repo_page)) =
      Fulfilled unprintable_url_response\<close>
    by (simp add: reply_def)
  have c2: \<open>ok unprintable_url_response\<close>
    by (simp add: ok_def unprintable_url_response_def json_response_def)
  have c3: \<open>json_body unprintable_url_response = Fulfilled (JObject [(''url'', JObject [(''toString'', JNumber ''1'')])])\<close>
    by (simp add: unprintable_url_response_def json_response_def unprintable_def)
  have c4: \<open>get_property v8 (JObject [(''url'', JObject [(''toString'', JNumber ''1'')])]) ''slug'' = Inr None\<close>
    by (simp add: substitution_def v8_def)
  have c5: \<open>substitution v8 (JObject [(''url'', JObject [(''toString'', JNumber ''1'')])]) ''url'' =
      Inl (JsError ''TypeError'' ''Cannot convert object to primitive value'')\<close>
    by (simp add: substitution_def v8_def)
  from missing_fields_render_undefined [where fetch = "reply unprintable_url_response" and s = repo_page and eng = v8 and data = \<open>JObject [(''url'', JObject [(''toString'', JNumber ''1'')])]\<close> and err = \<open>JsError ''TypeError'' ''Cannot convert object to primitive value''\<close>,
      OF c1 c2 c3] c4 c5 page0
  have c: \<open>is_Normal (submit_listener v8 (reply unprintable_url_response) repo_page) \<and>
    console_errors (page_of (submit_listener v8 (reply unprintable_url_response) repo_page)) = [JsError ''TypeError'' (''Cannot convert object to primitive value'')] \<and>
    result_className (page_of (submit_listener v8 (reply unprintable_url_response) repo_page)) = ''error'' \<and>
    result_innerHTML (page_of (submit_listener v8 (reply unprintable_url_response) repo_page)) = ''<strong>Error:</strong> '' @ ''Cannot convert object to primitive value''\<close>
    by (simp add: v8_def)
  have d1: \<open>reply unprintable_slug_only_response (deploy_request (url_of repo_page) (base_path_of repo_page)) =
      Fulfilled unprintable_slug_only_response\<close>
    by (simp add: reply_def)
  have d2: \<open>ok unprintable_slug_only_response\<close>
    by (simp add: ok_def unprintable_slug_only_response_def json_response_def)
  have d3: \<open>json_body unprintable_slug_only_response = Fulfilled (JObject [(''slug'', JObject [(''toString'', JNumber ''1'')])])\<close>
    by (simp add: unprintable_slug_only_response_def json_response_def unprintable_def)
  have d4: \<open>get_property v8 (JObject [(''slug'', JObject [(''toString'', JNumber ''1'')])]) ''url'' = Inr None\<close>
    by (simp add: substitution_def v8_def)
  have d5: \<open>substitution v8 (JObject [(''slug'', JObject [(''toString'', JNumber ''1'')])]) ''slug'' =
      Inl (JsError ''TypeError'' ''Cannot convert object to primitive value'')\<close>
    by (simp add: substitution_def v8_def)
  from missing_fields_render_undefined [where fetch = "reply unprintable_slug_only_response" and s = repo_page and eng = v8 and data = \<open>JObject [(''slug'', JObject [(''toString'', JNumber ''1'')])]\<close> and err = \<open>JsError ''TypeError'' ''Cannot convert object to primitive value''\<close>,
      OF d1 d2 d3] d4 d5 page0
  have d: \<open>is_Normal (submit_listener v8 (reply unprintable_slug_only_response) repo_page) \<and>
    console_errors (page_of (submit_listener v8 (reply unprintable_slug_only_response) repo_page)) = [JsError ''TypeError'' (''Cannot convert object to primitive value'')] \<and>
    result_className (page_of (submit_listener v8 (reply unprintable_slug_only_response) repo_page)) = ''error'' \<and>
    result_innerHTML (page_of (submit_listener v8 (reply unprintable_slug_only_response) repo_page)) = ''<strong>Error:</strong> '' @ ''Cannot convert object to primitive value''\<close>
    by (simp add: v8_def)
  have e1: \<open>reply null_response (deploy_request (url_of repo_page) (base_path_of repo_page)) =
      Fulfilled null_response\<close>
    by (simp add: reply_def)
  have e2: \<open>ok null_response\<close>
    by (simp add: ok_def null_response_def json_response_def)
  have e3: \<open>json_body null_response = Fulfilled (JNull)\<close>
    by (simp add: null_response_def json_response_def unprintable_def)
  from missing_fields_render_undefined [where fetch = "reply null_response" and s = repo_page and eng = v8 and data = \<open>JNull\<close>,
      OF e1 e2 e3]  page0
  have e: \<open>is_Normal (submit_listener v8 (reply null_response) repo_page) \<and>
    console_errors (page_of (submit_listener v8 (reply null_response) repo_page)) = [JsError ''TypeError'' (null_read_message v8 ''slug'')] \<and>
    result_className (page_of (submit_listener v8 (reply null_response) repo_page)) = ''error'' \<and>
    result_innerHTML (page_of (submit_listener v8 (reply null_response) repo_page)) = ''<strong>Error:</strong> '' @ null_read_message v8 ''slug''\<close>
    by (simp add: v8_def)
  from a1 a2 a3 a4 a5 a b1 b2 b3 b4 b5 b c1 c2 c3 c4 c5 c d1 d2 d3 d4 d5 d e1 e2 e3 e
  show ?thesis by blast
qed

text \<open>
  The claim as stated fails on a status 200 with the body \<^verbatim>\<open>{"url": {"toString": 1}}\<close>: the
  body has no \<^verbatim>\<open>slug\<close>, yet the \<^verbatim>\<open>url\<close> substitution throws and the run ends in the error
  panel with the \<^verbatim>\<open>TypeError\<close> logged. It fails on the body \<^verbatim>\<open>null\<close> as well, which has
  neither member: there the read of \<^verbatim>\<open>data.slug\<close> throws.
\<close>

theorem missing_fields_counterexample:
  "ok unprintable_url_response \<and>
   json_body unprintable_url_response =
     Fulfilled (JObject [(''url'', JObject [(''toString'', JNumber ''1'')])]) \<and>
   get_property v8 (JObject [(''url'', JObject [(''toString'', JNumber ''1'')])]) ''slug'' =
     Inr None \<and>
   is_Normal (submit_listener v8 (reply unprintable_url_response) repo_page) \<and>
   console_errors (page_of (submit_listener v8 (reply unprintable_url_response) repo_page)) =
     [JsError ''TypeError'' ''Cannot convert object to primitive value''] \<and>
   result_className (page_of (submit_listener v8 (reply unprintable_url_response) repo_page)) =
     ''error'' \<and>
   result_innerHTML (page_of (submit_listener v8 (reply unprintable_url_response) repo_page)) =
     ''<strong>Error:</strong> Cannot convert object to primitive value'' \<and>
   ok null_response \<and>
   json_body null_response = Fulfilled JNull \<and>
   console_errors (page_of (submit_listener v8 (reply null_response) repo_page)) =
     [JsError ''TypeError'' (null_read_message v8 ''slug'')] \<and>
   result_className (page_of (submit_listener v8 (reply null_response) repo_page)) =
     ''error''"
  by (simp add: run_simps)

text \<open>
  Claim C10. The strings of the server reach \<^verbatim>\<open>innerHTML\<close> as they are. On a status in 200
  to 299 whose body has the strings \<open>slug\<close> and \<open>url\<close> as members, the markup is the
  template of lines 34 to 40 with exactly \<open>slug\<close> between \<^verbatim>\<open><p>Site ID: <strong>\<close> and
  \<^verbatim>\<open></strong></p>\<close> and exactly \<open>url\<close> between the double quotes of \<^verbatim>\<open>href\<close>; on any other
  status whose body reads as the non-empty text \<open>body_text\<close>, the markup ends with exactly
  \<open>body_text\<close>. No character of the three is escaped or left out, whatever markup they hold.
\<close>

theorem server_strings_verbatim:
  assumes "fetch (deploy_request (url_of s) (base_path_of s)) = Fulfilled response"
  shows \<open>(ok response \<and> json_body response = Fulfilled data \<and>
          get_property eng data ''slug'' = Inr (Some (JString slug)) \<and>
          get_property eng data ''url'' = Inr (Some (JString url)) \<longrightarrow>
          result_innerHTML (page_of (submit_listener eng fetch s)) =
            [CHR 0x0A] @ replicate 24 (CHR '' '') @ ''<strong>Success!</strong>'' @
            [CHR 0x0A] @ replicate 24 (CHR '' '') @ ''<p>Site ID: <strong>'' @ slug @ ''</strong></p>'' @
            [CHR 0x0A] @ replicate 24 (CHR '' '') @ ''<a href="'' @ url @
              ''" target="_blank" id="result-url">'' @
            [CHR 0x0A] @ replicate 28 (CHR '' '') @ ''Go to Site'' @
            [CHR 0x0A] @ replicate 24 (CHR '' '') @ ''</a>'' @
            [CHR 0x0A] @ replicate 20 (CHR '' '')) \<and>
         (\<not> ok response \<and> text_body response = Fulfilled body_text \<and> body_text \<noteq> [] \<longrightarrow>
          result_innerHTML (page_of (submit_listener eng fetch s)) =
            ''<strong>Error:</strong> Server error: '' @ Number_toString (status response) @
            '' '' @ body_text)\<close>
proof (intro conjI impI)
  assume h: "ok response \<and> json_body response = Fulfilled data \<and>
             get_property eng data ''slug'' = Inr (Some (JString slug)) \<and>
             get_property eng data ''url'' = Inr (Some (JString url))"
  then have a: "ok response" and b: "json_body response = Fulfilled data"
    and c: "substitution eng data ''slug'' = Inr slug"
    and d: "substitution eng data ''url'' = Inr url"
    by (simp_all add: substitution_string)
  from listener_success [where fetch = fetch and s = s and eng = eng, OF assms a b c d]
  show \<open>result_innerHTML (page_of (submit_listener eng fetch s)) =
          [CHR 0x0A] @ replicate 24 (CHR '' '') @ ''<strong>Success!</strong>'' @
          [CHR 0x0A] @ replicate 24 (CHR '' '') @ ''<p>Site ID: <strong>'' @ slug @ ''</strong></p>'' @
          [CHR 0x0A] @ replicate 24 (CHR '' '') @ ''<a href="'' @ url @
            ''" target="_blank" id="result-url">'' @
          [CHR 0x0A] @ replicate 28 (CHR '' '') @ ''Go to Site'' @
          [CHR 0x0A] @ replicate 24 (CHR '' '') @ ''</a>'' @
          [CHR 0x0A] @ replicate 20 (CHR '' '')\<close>
    by (simp add: success_html_markup)
next
  assume h: "\<not> ok response \<and> text_body response = Fulfilled body_text \<and> body_text \<noteq> []"
  then have a: "\<not> ok response" and b: "text_body response = Fulfilled body_text" by simp_all
  from server_failure_throws [where fetch = fetch and url = "url_of s" and
      base_path = "base_path_of s" and eng = eng and s = "start s", OF assms a b]
  obtain s1 where t: "try_block eng fetch (url_of s) (base_path_of s) (start s) =
                        Throw (server_error response body_text) s1"
    by auto
  from listener_after_Throw [OF t] h
  show "result_innerHTML (page_of (submit_listener eng fetch s)) =
          ''<strong>Error:</strong> Server error: '' @ Number_toString (status response) @
          '' '' @ body_text"
    by (simp add: server_error_def)
qed

text \<open>Strings that hold markup of their own.\<close>

theorem server_strings_verbatim_witness:
  \<open>reply markup_response (deploy_request (url_of repo_page) (base_path_of repo_page)) =
     Fulfilled markup_response \<and>
   ok markup_response \<and>
   result_innerHTML (page_of (submit_listener v8 (reply markup_response) repo_page)) =
       [CHR 0x0A] @ replicate 24 (CHR '' '') @ ''<strong>Success!</strong>'' @
       [CHR 0x0A] @ replicate 24 (CHR '' '') @ ''<p>Site ID: <strong>'' @ ''<img src=x onerror=alert(1)>'' @ ''</strong></p>'' @
       [CHR 0x0A] @ replicate 24 (CHR '' '') @ ''<a href="'' @ ''"><script>alert(2)</script>'' @
         ''" target="_blank" id="result-url">'' @
       [CHR 0x0A] @ replicate 28 (CHR '' '') @ ''Go to Site'' @
       [CHR 0x0A] @ replicate 24 (CHR '' '') @ ''</a>'' @
       [CHR 0x0A] @ replicate 20 (CHR '' '') \<and>
   reply (text_response 502 ''<b>Bad Gateway</b>'')
       (deploy_request (url_of repo_page) (base_path_of repo_page)) =
     Fulfilled (text_response 502 ''<b>Bad Gateway</b>'') \<and>
   \<not> ok (text_response 502 ''<b>Bad Gateway</b>'') \<and>
   result_innerHTML (page_of (submit_listener v8
       (reply (text_response 502 ''<b>Bad Gateway</b>'')) repo_page)) =
     ''<strong>Error:</strong> Server error: 502 <b>Bad Gateway</b>''\<close>
proof -
  let ?data = \<open>JObject [(''slug'', JString ''<img src=x onerror=alert(1)>''),
                        (''url'', JString ''"><script>alert(2)</script>'')]\<close>
  let ?bad = "text_response 502 ''<b>Bad Gateway</b>''"
  have a: "reply markup_response (deploy_request (url_of repo_page) (base_path_of repo_page)) =
             Fulfilled markup_response"
    by (simp add: reply_def)
  have b: "ok markup_response"
    by (simp add: ok_def markup_response_def json_response_def)
  have c: "json_body markup_response = Fulfilled ?data"
    by (simp add: markup_response_def json_response_def)
  have d: "get_property v8 ?data ''slug'' = Inr (Some (JString ''<img src=x onerror=alert(1)>''))"
    by simp
  have e: \<open>get_property v8 ?data ''url'' = Inr (Some (JString ''"><script>alert(2)</script>''))\<close>
    by simp
  have a': "reply ?bad (deploy_request (url_of repo_page) (base_path_of repo_page)) =
              Fulfilled ?bad"
    by (simp add: reply_def)
  have b': "\<not> ok ?bad"
    by (simp add: ok_def text_response_def)
  have c': "text_body ?bad = Fulfilled ''<b>Bad Gateway</b>''"
    by (simp add: text_response_def)
  have n: "Number_toString 502 = ''502''" by code_simp
  have s: "status ?bad = 502" by (simp add: text_response_def)
  from server_strings_verbatim [where fetch = "reply markup_response" and s = repo_page and
      eng = v8 and data = "?data", OF a]
    server_strings_verbatim [where fetch = "reply ?bad" and s = repo_page and eng = v8 and
      body_text = "''<b>Bad Gateway</b>''", OF a']
    a b c d e a' b' c' n s
  show ?thesis by simp
qed

subsection \<open>The submit button\<close>

text \<open>
  Claim C7, as the code has it. The \<^verbatim>\<open>finally\<close> block sets \<^verbatim>\<open>button.disabled = false\<close>
  whatever the property was before the submission: after settlement the button is
  enabled, which is its state before the submission exactly when it was enabled then.
\<close>

theorem button_reenabled:
  assumes "settles fetch s"
  shows "is_Normal (submit_listener eng fetch s) \<and>
         button_disabled (page_of (submit_listener eng fetch s)) = False \<and>
         (button_disabled (page_of (submit_listener eng fetch s)) = button_disabled s
            \<longleftrightarrow> \<not> button_disabled s)"
  using assms
  by (cases rule: settled_listener [where eng = eng]) auto

text \<open>A submission from the page at rest, and one from a page whose button is disabled.\<close>

theorem button_reenabled_witness:
  "settles (reply site_response) repo_page \<and>
   button_disabled repo_page = False \<and>
   button_disabled (page_of (submit_listener v8 (reply site_response) repo_page)) = False \<and>
   settles network_down busy_page \<and>
   button_disabled busy_page = True \<and>
   button_disabled (page_of (submit_listener v8 network_down busy_page)) = False"
proof -
  have a: "settles (reply site_response) repo_page"
    by (simp add: run_simps)
  have b: "settles network_down busy_page"
    by (simp add: run_simps)
  have c: "button_disabled repo_page = False" "button_disabled busy_page = True"
    by (simp_all add: run_simps)
  from button_reenabled [OF a, of v8] button_reenabled [OF b, of v8] a b c
  show ?thesis by simp
qed

text \<open>
  The claim as stated fails when the button is disabled before the submission starts:
  after settlement it is enabled.
\<close>

theorem button_state_counterexample:
  "settles (reply site_response) busy_page \<and>
   is_Normal (submit_listener v8 (reply site_response) busy_page) \<and>
   button_disabled busy_page = True \<and>
   button_disabled (page_of (submit_listener v8 (reply site_response) busy_page)) = False"
  by (simp add: run_simps)

text \<open>
  Claim C8, as the code has it. The listener changes the label to \<^verbatim>\<open>Deploying...\<close> at the
  start, and the \<^verbatim>\<open>finally\<close> block sets it to the fixed text \<^verbatim>\<open>Deploy\<close>; it keeps no copy of
  the label the button had. After settlement the label is \<^verbatim>\<open>Deploy\<close>, which is the label
  from before the submission exactly when that label was \<^verbatim>\<open>Deploy\<close>.
\<close>

theorem button_label_reset:
  assumes "settles fetch s"
  shows "button_textContent (start s) = ''Deploying...'' \<and>
         is_Normal (submit_listener eng fetch s) \<and>
         button_textContent (page_of (submit_listener eng fetch s)) = ''Deploy'' \<and>
         (button_textContent (page_of (submit_listener eng fetch s)) = button_textContent s
            \<longleftrightarrow> button_textContent s = ''Deploy'')"
proof -
  have "button_textContent (start s) = ''Deploying...''"
    by (simp add: start_def)
  moreover have "is_Normal (submit_listener eng fetch s) \<and>
      button_textContent (page_of (submit_listener eng fetch s)) = ''Deploy''"
    using assms by (cases rule: settled_listener [where eng = eng]) simp_all
  ultimately show ?thesis by auto
qed

text \<open>A submission from the page at rest, and one from a page whose button reads \<^verbatim>\<open>Launch\<close>.\<close>

theorem button_label_reset_witness:
  "settles (reply site_response) repo_page \<and>
   button_textContent repo_page = ''Deploy'' \<and>
   button_textContent (start repo_page) = ''Deploying...'' \<and>
   button_textContent (page_of (submit_listener v8 (reply site_response) repo_page)) =
     ''Deploy'' \<and>
   settles network_down launch_page \<and>
   button_textContent launch_page = ''Launch'' \<and>
   button_textContent (page_of (submit_listener v8 network_down launch_page)) = ''Deploy''"
proof -
  have a: "settles (reply site_response) repo_page"
    by (simp add: run_simps)
  have b: "settles network_down launch_page"
    by (simp add: run_simps)
  have c: "button_textContent repo_page = ''Deploy''" "button_textContent launch_page = ''Launch''"
    by (simp_all add: run_simps)
  from button_label_reset [OF a, of v8] button_label_reset [OF b, of v8] a b c
  show ?thesis by simp
qed

text \<open>
  The claim as stated fails when the label before the submission is not \<^verbatim>\<open>Deploy\<close>: a
  button that read \<^verbatim>\<open>Launch\<close> reads \<^verbatim>\<open>Deploy\<close> after settlement.
\<close>

theorem button_label_counterexample:
  "settles (reply site_response) launch_page \<and>
   is_Normal (submit_listener v8 (reply site_response) launch_page) \<and>
   button_textContent launch_page = ''Launch'' \<and>
   button_textContent (page_of (submit_listener v8 (reply site_response) launch_page)) =
     ''Deploy''"
  by (simp add: run_simps)

end
